theory Spec2Isabelle
  imports Complex_Main
begin

section \<open>Retrieval-augmented diffusion pipeline: data model\<close>

text \<open>
  The development embeds \<^verbatim>\<open>RDMPipeline.__call__\<close> of
  \<^verbatim>\<open>src/diffusers/pipelines/rdm/pipeline_rdm.py\<close>. Tensors are a shape together with
  their entries in row-major order; floating-point entries are idealised as reals, so
  there is no rounding and no NaN. The collaborators of the pipeline (tokenizer, CLIP
  model, feature extractor, U-Net, scheduler, VAE, random source, image conversion, the
  progress callback) are parameters: total functions that return normally; a random
  generator is an opaque token handed to them. Every
  \<^verbatim>\<open>raise\<close> of the source and every failure of tensor plumbing between the
  collaborator calls is a value of type \<open>error\<close>.
\<close>

datatype error =
    PromptTypeError
  | NotDivisibleBy8 int int
  | CallbackStepsError
  | LatentsShapeError "nat list" "int list"
  | UnpackError
  | IndexError
  | TensorError
  | ZeroDivisionError
  | KeywordError string

record tensor =
  shape :: "nat list"
  vals :: "real list"

definition numel :: "nat list \<Rightarrow> nat" where
  "numel s = prod_list s"

definition wf_tensor :: "tensor \<Rightarrow> bool" where
  "wf_tensor t = (length (vals t) = numel (shape t))"

text \<open>\<open>blocks n k xs\<close>: the first \<open>n\<close> consecutive slices of length \<open>k\<close> of \<open>xs\<close>.\<close>

fun blocks :: "nat \<Rightarrow> nat \<Rightarrow> 'a list \<Rightarrow> 'a list list" where
  "blocks 0 k xs = []"
| "blocks (Suc n) k xs = take k xs # blocks n k (drop k xs)"

subsection \<open>Tensor operations used by the pipeline\<close>

definition l2norm :: "real list \<Rightarrow> real" where
  "l2norm row = sqrt (sum_list (map (\<lambda>x. x * x) row))"

definition div_by_norm :: "real list \<Rightarrow> real list" where
  "div_by_norm row = map (\<lambda>x. x / l2norm row) row"

text \<open>\<^verbatim>\<open>x / torch.linalg.norm(x, dim=-1, keepdim=True)\<close>. A row of norm zero is where
  the real model (\<open>x / 0 = 0\<close>) and floating point (NaN) part; no statement below relies
  on such a row.\<close>

definition normalize_last :: "tensor \<Rightarrow> error + tensor" where
  "normalize_last t =
     (case shape t of
        [] \<Rightarrow> Inl IndexError
      | _ # _ \<Rightarrow>
          Inr (t\<lparr>vals := concat (map div_by_norm
                 (blocks (numel (butlast (shape t))) (last (shape t)) (vals t)))\<rparr>))"

text \<open>\<^verbatim>\<open>x[:, None, :]\<close>\<close>

definition unsqueeze1 :: "tensor \<Rightarrow> error + tensor" where
  "unsqueeze1 t =
     (case shape t of
        a # b # rest \<Rightarrow> Inr (t\<lparr>shape := a # 1 # b # rest\<rparr>)
      | _ \<Rightarrow> Inl IndexError)"

text \<open>\<^verbatim>\<open>x[None, ...]\<close>\<close>

definition unsqueeze0 :: "tensor \<Rightarrow> tensor" where
  "unsqueeze0 t = t\<lparr>shape := 1 # shape t\<rparr>"

text \<open>\<^verbatim>\<open>x.repeat(b, 1, 1)\<close>: a tensor of rank below three gets leading dimensions of
  size one, a tensor of rank above three is rejected.\<close>

definition repeat_b11 :: "nat \<Rightarrow> tensor \<Rightarrow> error + tensor" where
  "repeat_b11 b t =
     (if length (shape t) > 3 then Inl TensorError
      else let s = replicate (3 - length (shape t)) 1 @ shape t
           in Inr \<lparr>shape = (b * hd s) # tl s, vals = concat (replicate b (vals t))\<rparr>)"

text \<open>\<^verbatim>\<open>torch.cat([a, b], dim=1)\<close>\<close>

definition cat_dim1 :: "tensor \<Rightarrow> tensor \<Rightarrow> error + tensor" where
  "cat_dim1 a b =
     (case shape a of
        a0 # a1 # ra \<Rightarrow>
          (case shape b of
             b0 # b1 # rb \<Rightarrow>
               if a0 = b0 \<and> ra = rb
               then Inr \<lparr>shape = a0 # (a1 + b1) # ra,
                         vals = concat (map2 (@) (blocks a0 (a1 * numel ra) (vals a))
                                                 (blocks a0 (b1 * numel ra) (vals b)))\<rparr>
               else Inl TensorError
           | _ \<Rightarrow> Inl TensorError)
      | _ \<Rightarrow> Inl TensorError)"

text \<open>\<^verbatim>\<open>torch.cat([a, b])\<close>\<close>

definition cat_dim0 :: "tensor \<Rightarrow> tensor \<Rightarrow> error + tensor" where
  "cat_dim0 a b =
     (case shape a of
        a0 # ra \<Rightarrow>
          (case shape b of
             b0 # rb \<Rightarrow>
               if ra = rb then Inr \<lparr>shape = (a0 + b0) # ra, vals = vals a @ vals b\<rparr>
               else Inl TensorError
           | [] \<Rightarrow> Inl TensorError)
      | [] \<Rightarrow> Inl TensorError)"

definition zeros_like :: "tensor \<Rightarrow> tensor" where
  "zeros_like t = t\<lparr>vals := map (\<lambda>_. 0) (vals t)\<rparr>"

text \<open>\<^verbatim>\<open>u, c = x.chunk(2)\<close>: the first piece has \<open>\<lceil>n / 2\<rceil>\<close> leading entries; a tensor
  with one leading entry gives a single piece, and unpacking it into two names fails.\<close>

definition chunk2 :: "tensor \<Rightarrow> error + tensor \<times> tensor" where
  "chunk2 t =
     (case shape t of
        [] \<Rightarrow> Inl TensorError
      | n # rest \<Rightarrow>
          if n = 1 then Inl UnpackError
          else let c = (n + 1) div 2
               in Inr (\<lparr>shape = c # rest, vals = take (c * numel rest) (vals t)\<rparr>,
                       \<lparr>shape = (n - c) # rest, vals = drop (c * numel rest) (vals t)\<rparr>))"

text \<open>Elementwise arithmetic of two tensors. Broadcasting between different shapes is
  not modelled: it is an error here.\<close>

definition tensor_sub :: "tensor \<Rightarrow> tensor \<Rightarrow> error + tensor" where
  "tensor_sub a b =
     (if shape a = shape b then Inr \<lparr>shape = shape a, vals = map2 (-) (vals a) (vals b)\<rparr>
      else Inl TensorError)"

definition tensor_add :: "tensor \<Rightarrow> tensor \<Rightarrow> error + tensor" where
  "tensor_add a b =
     (if shape a = shape b then Inr \<lparr>shape = shape a, vals = map2 (+) (vals a) (vals b)\<rparr>
      else Inl TensorError)"

definition smul :: "real \<Rightarrow> tensor \<Rightarrow> tensor" where
  "smul c t = t\<lparr>vals := map (\<lambda>x. c * x) (vals t)\<rparr>"

definition clamp01 :: "real \<Rightarrow> real" where
  "clamp01 x = min 1 (max 0 x)"

text \<open>\<^verbatim>\<open>(image / 2 + 0.5).clamp(0, 1)\<close>\<close>

definition to_unit_range :: "tensor \<Rightarrow> tensor" where
  "to_unit_range t = t\<lparr>vals := map (\<lambda>x. clamp01 (x / 2 + 0.5)) (vals t)\<rparr>"

text \<open>\<^verbatim>\<open>x.permute(0, 2, 3, 1)\<close>: entry \<open>(n, h, w, c)\<close> of the result is entry
  \<open>(n, c, h, w)\<close> of the argument.\<close>

definition permute_0231 :: "tensor \<Rightarrow> error + tensor" where
  "permute_0231 t =
     (case shape t of
        [n, c, h, w] \<Rightarrow>
          Inr \<lparr>shape = [n, h, w, c],
               vals = concat (map (\<lambda>i. concat (map (\<lambda>y. concat (map (\<lambda>x.
                        map (\<lambda>k. vals t ! (((i * c + k) * h + y) * w + x)) [0..<c])
                        [0..<w])) [0..<h])) [0..<n])\<rparr>
      | _ \<Rightarrow> Inl TensorError)"

section \<open>Collaborators and call arguments\<close>

text \<open>The tokenizer is always called with \<^verbatim>\<open>padding="max_length"\<close>,
  \<^verbatim>\<open>max_length=self.tokenizer.model_max_length\<close> and \<^verbatim>\<open>truncation=True\<close>. Under
  these arguments it cuts the token ids of a prompt (\<open>tok_encode\<close>, of any length) after
  \<open>model_max_length\<close> entries and pads shorter rows with \<open>pad_token_id\<close>.\<close>

record tokenizer =
  tok_encode :: "string \<Rightarrow> int list"
  model_max_length :: nat
  pad_token_id :: int
  batch_decode :: "int list list \<Rightarrow> string list"

definition tokenizer_call :: "tokenizer \<Rightarrow> string list \<Rightarrow> int list list" where
  "tokenizer_call tk ps =
     map (\<lambda>p. let ids = take (model_max_length tk) (tok_encode tk p)
              in ids @ replicate (model_max_length tk - length ids) (pad_token_id tk)) ps"

record clip_model =
  get_text_features :: "int list list \<Rightarrow> tensor"
  get_image_features :: "tensor \<Rightarrow> tensor"

record vae_model =
  block_out_channels :: "nat list"
  scaling_factor :: real
  vae_decode :: "tensor \<Rightarrow> tensor"

record unet_model =
  in_channels :: nat
  unet_forward :: "tensor \<Rightarrow> real \<Rightarrow> tensor \<Rightarrow> tensor"

type_synonym generator = nat

datatype kwarg = KEta real | KGenerator "generator option"

text \<open>A scheduler over its own state \<open>'s\<close>. \<open>step_params\<close> lists the parameter names
  that \<^verbatim>\<open>inspect.signature(self.scheduler.step)\<close> reports.\<close>

record 's scheduler =
  set_timesteps :: "int \<Rightarrow> 's \<Rightarrow> 's"
  timesteps :: "'s \<Rightarrow> real list"
  init_noise_sigma :: "'s \<Rightarrow> real"
  scale_model_input :: "'s \<Rightarrow> tensor \<Rightarrow> real \<Rightarrow> tensor"
  step_params :: "string list"
  step :: "(string \<times> kwarg) list \<Rightarrow> tensor \<Rightarrow> real \<Rightarrow> tensor \<Rightarrow> 's \<Rightarrow> tensor \<times> 's"

record pil_image =
  pil_size :: "nat \<times> nat"
  pil_bytes :: "nat list"

record 's pipeline =
  vae :: vae_model
  clip :: clip_model
  tokenizer :: tokenizer
  unet :: unet_model
  scheduler :: "'s scheduler"
  feature_extractor :: "tensor list \<Rightarrow> tensor"
  randn_tensor :: "nat list \<Rightarrow> generator option \<Rightarrow> tensor"
  numpy_to_pil :: "tensor \<Rightarrow> pil_image list"

text \<open>\<^verbatim>\<open>self.vae_scale_factor = 2 ** (len(self.vae.config.block_out_channels) - 1)\<close>,
  for a VAE with at least one block.\<close>

definition vae_scale_factor :: "'s pipeline \<Rightarrow> nat" where
  "vae_scale_factor pl = 2 ^ (length (block_out_channels (vae pl)) - 1)"

datatype prompt = PStr string | PList "string list" | POther

datatype cb_steps = CNone | CInt int | COther

record call_args =
  prompt :: prompt
  retrieved_images :: "tensor list option"
  height :: int
  width :: int
  num_inference_steps :: int
  guidance_scale :: real
  num_images_per_prompt :: int
  eta :: real
  generator :: "generator option"
  latents :: "tensor option"
  output_type :: "string option"
  return_dict :: bool
  callback :: "(nat \<Rightarrow> real \<Rightarrow> tensor \<Rightarrow> unit) option"
  callback_steps :: cb_steps

datatype images = NumpyImages tensor | PilImages "pil_image list"

datatype pipeline_return = ReturnTuple images | ImagePipelineOutput images

text \<open>The trace of a call: every collaborator invocation and every logged warning, in
  the order the source performs them.\<close>

datatype event =
    ETokenize "string list"
  | EWarning "string list"
  | ETextFeatures "int list list"
  | EImageFeatures tensor
  | ERandn "nat list" "generator option"
  | ESetTimesteps int
  | EInspectSignature
  | EUnet tensor real tensor
  | EStep "(string \<times> kwarg) list" tensor real tensor
  | ECallback nat real tensor
  | EDecode tensor
  | ENumpyToPil tensor

fun is_unet :: "event \<Rightarrow> bool" where
  "is_unet (EUnet x t c) = True"
| "is_unet _ = False"

fun is_step :: "event \<Rightarrow> bool" where
  "is_step (EStep kw n t l) = True"
| "is_step _ = False"

fun is_callback :: "event \<Rightarrow> bool" where
  "is_callback (ECallback i t l) = True"
| "is_callback _ = False"

fun is_decode :: "event \<Rightarrow> bool" where
  "is_decode (EDecode z) = True"
| "is_decode _ = False"


text \<open>The step index and the timestep a callback invocation was given.\<close>

fun callback_index :: "event \<Rightarrow> nat" where
  "callback_index (ECallback i t l) = i"
| "callback_index _ = 0"

fun callback_timestep :: "event \<Rightarrow> real" where
  "callback_timestep (ECallback i t l) = t"
| "callback_timestep _ = 0"

fun is_warning :: "event \<Rightarrow> bool" where
  "is_warning (EWarning ws) = True"
| "is_warning _ = False"

text \<open>The events of the loop body, and the events that can precede the loop.\<close>

definition loop_event :: "event \<Rightarrow> bool" where
  "loop_event e = (is_unet e \<or> is_step e \<or> is_callback e)"

fun setup_event :: "event \<Rightarrow> bool" where
  "setup_event (ETokenize ps) = True"
| "setup_event (EWarning ws) = True"
| "setup_event (ETextFeatures ids) = True"
| "setup_event (EImageFeatures px) = True"
| "setup_event (ERandn s g) = True"
| "setup_event (ESetTimesteps n) = True"
| "setup_event EInspectSignature = True"
| "setup_event _ = False"

section \<open>The phases of the call\<close>

subsection \<open>Input validation (source lines 296--312)\<close>

fun batch_size_of :: "prompt \<Rightarrow> error + nat" where
  "batch_size_of (PStr s) = Inr 1"
| "batch_size_of (PList ps) = Inr (length ps)"
| "batch_size_of POther = Inl PromptTypeError"

fun prompt_list :: "prompt \<Rightarrow> string list" where
  "prompt_list (PStr s) = [s]"
| "prompt_list (PList ps) = ps"
| "prompt_list POther = []"

fun callback_steps_ok :: "cb_steps \<Rightarrow> bool" where
  "callback_steps_ok CNone = False"
| "callback_steps_ok (CInt k) = (\<not> k \<le> 0)"
| "callback_steps_ok COther = False"

fun callback_steps_int :: "cb_steps \<Rightarrow> int" where
  "callback_steps_int (CInt k) = k"
| "callback_steps_int _ = 0"

definition check_inputs :: "call_args \<Rightarrow> error + nat" where
  "check_inputs a =
     (case batch_size_of (prompt a) of
        Inl e \<Rightarrow> Inl e
      | Inr batch_size \<Rightarrow>
          if height a mod 8 \<noteq> 0 \<or> width a mod 8 \<noteq> 0
          then Inl (NotDivisibleBy8 (height a) (width a))
          else if \<not> callback_steps_ok (callback_steps a) then Inl CallbackStepsError
          else Inr batch_size)"

subsection \<open>Prompt embedding (source lines 315--333)\<close>

definition ids_width :: "int list list \<Rightarrow> nat" where
  "ids_width ids = (case ids of [] \<Rightarrow> 0 | row # _ \<Rightarrow> length row)"

definition encode_prompt :: "'s pipeline \<Rightarrow> prompt \<Rightarrow> event list \<times> (error + tensor)" where
  "encode_prompt pl p =
     (let tk = tokenizer pl;
          text_input_ids = tokenizer_call tk (prompt_list p);
          truncated = (ids_width text_input_ids > model_max_length tk);
          warning = (if truncated
                     then [EWarning (batch_decode tk (map (drop (model_max_length tk)) text_input_ids))]
                     else []);
          ids = (if truncated then map (take (model_max_length tk)) text_input_ids
                 else text_input_ids)
      in ([ETokenize (prompt_list p)] @ warning @ [ETextFeatures ids],
          case normalize_last (get_text_features (clip pl) ids) of
            Inl e \<Rightarrow> Inl e
          | Inr text_embeddings \<Rightarrow> unsqueeze1 text_embeddings))"

subsection \<open>Retrieved images (source lines 28--48 and 335--345)\<close>

definition normalize_images :: "tensor list \<Rightarrow> tensor list" where
  "normalize_images ims = map (\<lambda>im. im\<lparr>vals := map (\<lambda>x. x / 127.5 - 1) (vals im)\<rparr>) ims"

definition preprocess_images :: "tensor list \<Rightarrow> (tensor list \<Rightarrow> tensor) \<Rightarrow> tensor" where
  "preprocess_images ims fe = fe (map (\<lambda>im. im\<lparr>vals := map (\<lambda>x. (x + 1.0) / 2.0) (vals im)\<rparr>) ims)"

definition fuse_images ::
  "'s pipeline \<Rightarrow> nat \<Rightarrow> tensor \<Rightarrow> tensor list option \<Rightarrow> event list \<times> (error + tensor)" where
  "fuse_images pl batch_size text_embeddings ri =
     (case ri of
        None \<Rightarrow> ([], Inr text_embeddings)
      | Some ims \<Rightarrow>
          let pixels = preprocess_images (normalize_images ims) (feature_extractor pl)
          in ([EImageFeatures pixels],
              case normalize_last (get_image_features (clip pl) pixels) of
                Inl e \<Rightarrow> Inl e
              | Inr image_embeddings \<Rightarrow>
                  (case repeat_b11 batch_size (unsqueeze0 image_embeddings) of
                     Inl e \<Rightarrow> Inl e
                   | Inr repeated \<Rightarrow> cat_dim1 text_embeddings repeated)))"

subsection \<open>One conditioning row per generated image (source lines 348--350)\<close>

text \<open>\<^verbatim>\<open>repeat(1, n, 1)\<close> followed by \<^verbatim>\<open>view(bs_embed * n, seq_len, -1)\<close>. The view
  cannot infer the last dimension of an empty tensor when the given dimensions multiply
  to zero.\<close>

definition duplicate_per_prompt :: "tensor \<Rightarrow> int \<Rightarrow> error + tensor" where
  "duplicate_per_prompt te n =
     (case shape te of
        [bs_embed, seq_len, d] \<Rightarrow>
          if n < 0 then Inl TensorError
          else if bs_embed * nat n * seq_len = 0 then Inl TensorError
          else Inr \<lparr>shape = [bs_embed * nat n, seq_len, d],
                    vals = concat (map (\<lambda>blk. concat (replicate (nat n) blk))
                                       (blocks bs_embed (seq_len * d) (vals te)))\<rparr>
      | _ \<Rightarrow> Inl UnpackError)"

subsection \<open>Classifier-free guidance (source lines 355--363 and 412--414)\<close>

definition do_classifier_free_guidance :: "call_args \<Rightarrow> bool" where
  "do_classifier_free_guidance a = (guidance_scale a > 1.0)"

definition add_uncond :: "bool \<Rightarrow> tensor \<Rightarrow> error + tensor" where
  "add_uncond cfg text_embeddings =
     (if cfg then cat_dim0 (zeros_like text_embeddings) text_embeddings
      else Inr text_embeddings)"

definition guide :: "bool \<Rightarrow> real \<Rightarrow> tensor \<Rightarrow> error + tensor" where
  "guide cfg w noise_pred =
     (if cfg
      then (case chunk2 noise_pred of
              Inl e \<Rightarrow> Inl e
            | Inr (noise_pred_uncond, noise_pred_text) \<Rightarrow>
                (case tensor_sub noise_pred_text noise_pred_uncond of
                   Inl e \<Rightarrow> Inl e
                 | Inr diff \<Rightarrow> tensor_add noise_pred_uncond (smul w diff)))
      else Inr noise_pred)"

subsection \<open>Initial latents (source lines 365--377)\<close>

definition latents_shape :: "'s pipeline \<Rightarrow> nat \<Rightarrow> call_args \<Rightarrow> int list" where
  "latents_shape pl batch_size a =
     [int batch_size * num_images_per_prompt a,
      int (in_channels (unet pl)),
      height a div int (vae_scale_factor pl),
      width a div int (vae_scale_factor pl)]"

definition prepare_latents ::
  "'s pipeline \<Rightarrow> int list \<Rightarrow> call_args \<Rightarrow> event list \<times> (error + tensor)" where
  "prepare_latents pl ls a =
     (case latents a of
        None \<Rightarrow>
          if list_ex (\<lambda>d. d < 0) ls then ([], Inl TensorError)
          else ([ERandn (map nat ls) (generator a)],
                Inr (randn_tensor pl (map nat ls) (generator a)))
      | Some l \<Rightarrow>
          if map int (shape l) \<noteq> ls then ([], Inl (LatentsShapeError (shape l) ls))
          else ([], Inr l))"

subsection \<open>Scheduler keyword arguments (source lines 393--401 and 417)\<close>

definition prepare_extra_step_kwargs ::
  "'s scheduler \<Rightarrow> call_args \<Rightarrow> (string \<times> kwarg) list" where
  "prepare_extra_step_kwargs sch a =
     (let accepts_eta = (''eta'' \<in> set (step_params sch));
          accepts_generator = (''generator'' \<in> set (step_params sch))
      in (if accepts_eta then [(''eta'', KEta (eta a))] else []) @
         (if accepts_generator then [(''generator'', KGenerator (generator a))] else []))"

text \<open>\<^verbatim>\<open>self.scheduler.step(noise_pred, t, latents, **extra_step_kwargs)\<close>: a keyword
  that the signature of \<open>step\<close> does not have is a \<^verbatim>\<open>TypeError\<close> of the call.\<close>

definition call_step ::
  "'s scheduler \<Rightarrow> (string \<times> kwarg) list \<Rightarrow> tensor \<Rightarrow> real \<Rightarrow> tensor \<Rightarrow> 's
     \<Rightarrow> error + tensor \<times> 's" where
  "call_step sch kw noise_pred t lat st =
     (case filter (\<lambda>k. k \<notin> set (step_params sch)) (map fst kw) of
        [] \<Rightarrow> Inr (step sch kw noise_pred t lat st)
      | k # _ \<Rightarrow> Inl (KeywordError k))"

subsection \<open>The denoising loop (source lines 403--421)\<close>

text \<open>What stays fixed during the loop.\<close>

record loop_env =
  env_cfg :: bool
  env_guidance_scale :: real
  env_text_embeddings :: tensor
  env_kwargs :: "(string \<times> kwarg) list"
  env_has_callback :: bool
  env_callback_steps :: int

text \<open>One iteration, for step index \<open>i\<close> and timestep \<open>t\<close>: the new latents, the events
  of the iteration and the new scheduler state; on an error, the events up to it.\<close>

definition denoise_step ::
  "'s pipeline \<Rightarrow> loop_env \<Rightarrow> nat \<Rightarrow> real \<Rightarrow> tensor \<Rightarrow> 's
     \<Rightarrow> (error + tensor \<times> 's) \<times> event list" where
  "denoise_step pl env i t lat st =
     (case (if env_cfg env then cat_dim0 lat lat else Inr lat) of
        Inl e \<Rightarrow> (Inl e, [])
      | Inr doubled \<Rightarrow>
          let latent_model_input = scale_model_input (scheduler pl) st doubled t;
              noise_pred = unet_forward (unet pl) latent_model_input t (env_text_embeddings env);
              ev_unet = [EUnet latent_model_input t (env_text_embeddings env)]
          in (case guide (env_cfg env) (env_guidance_scale env) noise_pred of
                Inl e \<Rightarrow> (Inl e, ev_unet)
              | Inr guided \<Rightarrow>
                  (case call_step (scheduler pl) (env_kwargs env) guided t lat st of
                     Inl e \<Rightarrow> (Inl e, ev_unet)
                   | Inr (lat', st') \<Rightarrow>
                       (Inr (lat', st'),
                        ev_unet @ [EStep (env_kwargs env) guided t lat] @
                        (if env_has_callback env \<and> int i mod env_callback_steps env = 0
                         then [ECallback i t lat'] else [])))))"

text \<open>The loop over the timesteps, from step index \<open>i\<close>: the final latents or the
  error, the scheduler state reached, and the events.\<close>

fun denoise_loop ::
  "'s pipeline \<Rightarrow> loop_env \<Rightarrow> nat \<Rightarrow> real list \<Rightarrow> tensor \<Rightarrow> 's
     \<Rightarrow> (error + tensor) \<times> 's \<times> event list" where
  "denoise_loop pl env i [] lat st = (Inr lat, st, [])"
| "denoise_loop pl env i (t # ts) lat st =
     (case denoise_step pl env i t lat st of
        (Inl e, evs) \<Rightarrow> (Inl e, st, evs)
      | (Inr (lat', st'), evs) \<Rightarrow>
          (case denoise_loop pl env (Suc i) ts lat' st' of
             (r, st'', evs') \<Rightarrow> (r, st'', evs @ evs')))"

subsection \<open>Decoding and output form (source lines 423--437)\<close>

definition decode_latents :: "'s pipeline \<Rightarrow> tensor \<Rightarrow> event list \<times> (error + tensor)" where
  "decode_latents pl lat =
     (if scaling_factor (vae pl) = 0 then ([], Inl ZeroDivisionError)
      else let scaled = smul (1 / scaling_factor (vae pl)) lat
           in ([EDecode scaled], permute_0231 (to_unit_range (vae_decode (vae pl) scaled))))"

definition format_output ::
  "'s pipeline \<Rightarrow> call_args \<Rightarrow> tensor \<Rightarrow> event list \<times> pipeline_return" where
  "format_output pl a img =
     (let (evs, im) = (if output_type a = Some ''pil''
                       then ([ENumpyToPil img], PilImages (numpy_to_pil pl img))
                       else ([], NumpyImages img))
      in (evs, if \<not> return_dict a then ReturnTuple im else ImagePipelineOutput im))"

section \<open>The call\<close>

text \<open>Source lines 296--363: validation and the conditioning tensor. The result is the
  batch size and the \<^verbatim>\<open>text_embeddings\<close> handed to the U-Net, with the events so far.\<close>

definition conditioning ::
  "'s pipeline \<Rightarrow> call_args \<Rightarrow> event list \<times> (error + nat \<times> tensor)" where
  "conditioning pl a =
     (case check_inputs a of
        Inl e \<Rightarrow> ([], Inl e)
      | Inr batch_size \<Rightarrow>
     (case encode_prompt pl (prompt a) of
        (ev1, Inl e) \<Rightarrow> (ev1, Inl e)
      | (ev1, Inr text_only) \<Rightarrow>
     (case fuse_images pl batch_size text_only (retrieved_images a) of
        (ev2, Inl e) \<Rightarrow> (ev1 @ ev2, Inl e)
      | (ev2, Inr fused) \<Rightarrow>
     (case duplicate_per_prompt fused (num_images_per_prompt a) of
        Inl e \<Rightarrow> (ev1 @ ev2, Inl e)
      | Inr duplicated \<Rightarrow>
     (case add_uncond (do_classifier_free_guidance a) duplicated of
        Inl e \<Rightarrow> (ev1 @ ev2, Inl e)
      | Inr text_embeddings \<Rightarrow> (ev1 @ ev2, Inr (batch_size, text_embeddings)))))))"

definition make_loop_env :: "'s pipeline \<Rightarrow> call_args \<Rightarrow> tensor \<Rightarrow> loop_env" where
  "make_loop_env pl a text_embeddings =
     \<lparr>env_cfg = do_classifier_free_guidance a,
      env_guidance_scale = guidance_scale a,
      env_text_embeddings = text_embeddings,
      env_kwargs = prepare_extra_step_kwargs (scheduler pl) a,
      env_has_callback = (callback a \<noteq> None),
      env_callback_steps = callback_steps_int (callback_steps a)\<rparr>"

text \<open>Source lines 296--421: everything up to the end of the denoising loop. The result
  is the final latents or the raised error, the trace, and the scheduler state left
  behind. The two \<open>EInspectSignature\<close> events are the two \<^verbatim>\<open>inspect.signature\<close>
  calls of lines 393 and 399.\<close>

definition rdm_denoise ::
  "'s pipeline \<Rightarrow> call_args \<Rightarrow> 's \<Rightarrow> (error + tensor) \<times> event list \<times> 's" where
  "rdm_denoise pl a st =
     (case conditioning pl a of
        (evc, Inl e) \<Rightarrow> (Inl e, evc, st)
      | (evc, Inr (batch_size, text_embeddings)) \<Rightarrow>
     (case prepare_latents pl (latents_shape pl batch_size a) a of
        (evl, Inl e) \<Rightarrow> (Inl e, evc @ evl, st)
      | (evl, Inr lat0) \<Rightarrow>
     (let st1 = set_timesteps (scheduler pl) (num_inference_steps a) st;
          timesteps_tensor = timesteps (scheduler pl) st1;
          lat1 = smul (init_noise_sigma (scheduler pl) st1) lat0;
          evs = [ESetTimesteps (num_inference_steps a), EInspectSignature, EInspectSignature]
      in (case denoise_loop pl (make_loop_env pl a text_embeddings) 0 timesteps_tensor lat1 st1 of
            (r, st2, evd) \<Rightarrow> (r, evc @ evl @ evs @ evd, st2)))))"

text \<open>Source lines 296--429: everything up to the decoded pixel array.\<close>

definition rdm_generate ::
  "'s pipeline \<Rightarrow> call_args \<Rightarrow> 's \<Rightarrow> (error + tensor) \<times> event list \<times> 's" where
  "rdm_generate pl a st =
     (case rdm_denoise pl a st of
        (Inl e, tr, st') \<Rightarrow> (Inl e, tr, st')
      | (Inr lat, tr, st') \<Rightarrow>
          (case decode_latents pl lat of (eve, r) \<Rightarrow> (r, tr @ eve, st')))"

text \<open>\<open>rdm_call pl a st\<close> is \<^verbatim>\<open>RDMPipeline.__call__\<close> on pipeline \<open>pl\<close> with arguments
  \<open>a\<close>, started with scheduler state \<open>st\<close>: the returned value or the raised error, the
  trace of the call, and the scheduler state the call leaves behind.\<close>

definition rdm_call ::
  "'s pipeline \<Rightarrow> call_args \<Rightarrow> 's \<Rightarrow> (error + pipeline_return) \<times> event list \<times> 's" where
  "rdm_call pl a st =
     (case rdm_generate pl a st of
        (Inl e, tr, st') \<Rightarrow> (Inl e, tr, st')
      | (Inr img, tr, st') \<Rightarrow>
          (case format_output pl a img of (evf, out) \<Rightarrow> (Inr out, tr @ evf, st')))"

section \<open>A small pipeline instance\<close>

text \<open>Concrete collaborators on which the definitions can be evaluated. The tokenizer
  gives one id per character and keeps four; CLIP embeds every prompt as \<open>(0, 2)\<close> and
  every image as \<open>(2, 0)\<close>; the VAE takes its list of block channels as a parameter
  (two blocks in \<^verbatim>\<open>get_dummy_components\<close> of \<^verbatim>\<open>tests/pipelines/rdm/test_rdm.py\<close>)
  and decodes every latent to one RGB pixel; the
  U-Net returns its input; the scheduler state is the list of timesteps it was
  initialised with.\<close>

definition ex_tokenizer :: tokenizer where
  "ex_tokenizer =
     \<lparr>tok_encode = map (\<lambda>c. int (of_char c)),
      model_max_length = 4,
      pad_token_id = 0,
      batch_decode = map (map (\<lambda>k. char_of (nat k)))\<rparr>"

definition ex_clip :: clip_model where
  "ex_clip =
     \<lparr>get_text_features = (\<lambda>ids. \<lparr>shape = [length ids, 2], vals = concat (map (\<lambda>_. [0, 2]) ids)\<rparr>),
      get_image_features =
        (\<lambda>px. \<lparr>shape = [hd (shape px), 2], vals = concat (replicate (hd (shape px)) [2, 0])\<rparr>)\<rparr>"

definition ex_vae :: "nat list \<Rightarrow> vae_model" where
  "ex_vae chans =
     \<lparr>block_out_channels = chans,
      scaling_factor = 1 / 2,
      vae_decode = (\<lambda>z. \<lparr>shape = [hd (shape z), 3, 1, 1],
                           vals = concat (replicate (hd (shape z)) [-2, 0, 2])\<rparr>)\<rparr>"

definition ex_unet :: unet_model where
  "ex_unet = \<lparr>in_channels = 1, unet_forward = (\<lambda>x t c. x)\<rparr>"

definition ex_step ::
  "(string \<times> kwarg) list \<Rightarrow> tensor \<Rightarrow> real \<Rightarrow> tensor \<Rightarrow> real list \<Rightarrow> tensor \<times> real list" where
  "ex_step kw noise_pred t lat st = (lat\<lparr>vals := map2 (-) (vals lat) (vals noise_pred)\<rparr>, st)"

text \<open>A scheduler with one timestep per requested step whose \<open>step\<close> takes both \<open>eta\<close>
  and \<open>generator\<close>, and one that takes neither and inserts an extra timestep.\<close>

definition ex_scheduler :: "real list scheduler" where
  "ex_scheduler =
     \<lparr>set_timesteps = (\<lambda>n st. map real (rev [0..<nat n])),
      timesteps = (\<lambda>st. st),
      init_noise_sigma = (\<lambda>st. 1),
      scale_model_input = (\<lambda>st x t. x),
      step_params = [''model_output'', ''timestep'', ''sample'', ''eta'', ''generator''],
      step = ex_step\<rparr>"

definition ex_scheduler_plain :: "real list scheduler" where
  "ex_scheduler_plain =
     \<lparr>set_timesteps = (\<lambda>n st. map real (rev [0..<nat n + 1])),
      timesteps = (\<lambda>st. st),
      init_noise_sigma = (\<lambda>st. 1),
      scale_model_input = (\<lambda>st x t. x),
      step_params = [''model_output'', ''timestep'', ''sample''],
      step = ex_step\<rparr>"

definition ex_pipeline :: "nat list \<Rightarrow> real list scheduler \<Rightarrow> real list pipeline" where
  "ex_pipeline chans sch =
     \<lparr>vae = ex_vae chans,
      clip = ex_clip,
      tokenizer = ex_tokenizer,
      unet = ex_unet,
      scheduler = sch,
      feature_extractor = (\<lambda>ims. \<lparr>shape = [length ims, 1], vals = map (\<lambda>im. sum_list (vals im)) ims\<rparr>),
      randn_tensor = (\<lambda>s g. \<lparr>shape = s, vals = replicate (numel s) 1\<rparr>),
      numpy_to_pil =
        (\<lambda>img. map (\<lambda>px. \<lparr>pil_size = (1, 1), pil_bytes = map (\<lambda>x. nat \<lfloor>x * 255\<rfloor>) px\<rparr>)
                    (blocks (hd (shape img)) 3 (vals img)))\<rparr>"

definition ex_callback :: "nat \<Rightarrow> real \<Rightarrow> tensor \<Rightarrow> unit" where
  "ex_callback i t l = ()"

definition ex_args :: call_args where
  "ex_args =
     \<lparr>prompt = PStr ''cat'',
      retrieved_images = None,
      height = 8,
      width = 8,
      num_inference_steps = 2,
      guidance_scale = 1,
      num_images_per_prompt = 1,
      eta = 0,
      generator = None,
      latents = None,
      output_type = Some ''pil'',
      return_dict = True,
      callback = None,
      callback_steps = CInt 1\<rparr>"

section \<open>Evaluation rules\<close>

lemmas tensor_defs =
  normalize_last_def unsqueeze1_def unsqueeze0_def repeat_b11_def cat_dim1_def cat_dim0_def
  zeros_like_def chunk2_def tensor_sub_def tensor_add_def smul_def clamp01_def
  to_unit_range_def permute_0231_def numel_def l2norm_def div_by_norm_def

lemmas phase_defs =
  rdm_call_def rdm_generate_def rdm_denoise_def conditioning_def check_inputs_def encode_prompt_def fuse_images_def
  duplicate_per_prompt_def add_uncond_def do_classifier_free_guidance_def guide_def
  latents_shape_def prepare_latents_def prepare_extra_step_kwargs_def call_step_def
  denoise_step_def decode_latents_def format_output_def make_loop_env_def
  tokenizer_call_def ids_width_def normalize_images_def preprocess_images_def
  vae_scale_factor_def

lemmas ex_defs =
  ex_args_def ex_pipeline_def ex_scheduler_def ex_scheduler_plain_def ex_step_def
  ex_unet_def ex_vae_def ex_clip_def ex_tokenizer_def

section \<open>Input validation\<close>

lemma check_inputs_cases:
  "check_inputs a =
     (case batch_size_of (prompt a) of
        Inl e \<Rightarrow> Inl e
      | Inr b \<Rightarrow>
          if height a mod 8 \<noteq> 0 \<or> width a mod 8 \<noteq> 0
          then Inl (NotDivisibleBy8 (height a) (width a))
          else if callback_steps_ok (callback_steps a) then Inr b else Inl CallbackStepsError)"
  by (simp add: check_inputs_def split: sum.splits)

lemma rdm_call_invalid:
  "check_inputs a = Inl e \<Longrightarrow> rdm_call pl a st = (Inl e, [], st)"
  by (simp add: rdm_call_def rdm_generate_def rdm_denoise_def conditioning_def)

text \<open>
  C1, as amended. For a prompt that is a string or a list, the call raises the
  divisibility error exactly when \<open>height\<close> or \<open>width\<close> is not a multiple of the constant
  8, whatever the downsampling factor \<open>2 ^ (len(block_out_channels) - 1)\<close> of the VAE is;
  the error is raised with an empty trace and an untouched scheduler. A pair of
  multiples of 8 passes the divisibility check. For a VAE with factor 8 this is
  divisibility by the factor.
\<close>

theorem height_width_divisible_by_8:
  assumes "batch_size_of (prompt a) = Inr b"
  shows "(height a mod 8 \<noteq> 0 \<or> width a mod 8 \<noteq> 0 \<longrightarrow>
            rdm_call pl a st = (Inl (NotDivisibleBy8 (height a) (width a)), [], st))
       \<and> (height a mod 8 = 0 \<and> width a mod 8 = 0 \<longrightarrow>
            check_inputs a = Inr b \<or> check_inputs a = Inl CallbackStepsError)
       \<and> (vae_scale_factor pl = 8 \<longrightarrow>
            (int (vae_scale_factor pl) dvd height a \<and> int (vae_scale_factor pl) dvd width a)
              = (check_inputs a = Inr b \<or> check_inputs a = Inl CallbackStepsError))"
proof -
  have ci: "check_inputs a =
      (if height a mod 8 \<noteq> 0 \<or> width a mod 8 \<noteq> 0
       then Inl (NotDivisibleBy8 (height a) (width a))
       else if callback_steps_ok (callback_steps a) then Inr b else Inl CallbackStepsError)"
    using assms by (simp add: check_inputs_cases)
  have bad: "height a mod 8 \<noteq> 0 \<or> width a mod 8 \<noteq> 0 \<Longrightarrow>
      rdm_call pl a st = (Inl (NotDivisibleBy8 (height a) (width a)), [], st)"
    by (rule rdm_call_invalid) (simp add: ci)
  have good: "height a mod 8 = 0 \<and> width a mod 8 = 0 \<Longrightarrow>
      check_inputs a = Inr b \<or> check_inputs a = Inl CallbackStepsError"
    by (simp add: ci)
  have factor8: "vae_scale_factor pl = 8 \<Longrightarrow>
      (int (vae_scale_factor pl) dvd height a \<and> int (vae_scale_factor pl) dvd width a)
        = (check_inputs a = Inr b \<or> check_inputs a = Inl CallbackStepsError)"
    by (auto simp add: ci dvd_eq_mod_eq_0)
  from bad good factor8 show ?thesis by blast
qed

theorem height_width_divisible_by_8_witness:
  "rdm_call (ex_pipeline [32, 64, 128, 256] ex_scheduler) (ex_args\<lparr>height := 12\<rparr>) []
     = (Inl (NotDivisibleBy8 12 8), [], [])
   \<and> check_inputs ex_args = Inr 1"
proof -
  have p: "batch_size_of (prompt (ex_args\<lparr>height := 12\<rparr>)) = Inr 1"
    and q: "batch_size_of (prompt ex_args) = Inr 1"
    by (simp_all add: ex_args_def)
  have ok: "callback_steps_ok (callback_steps ex_args)"
    by (simp add: ex_args_def)
  show ?thesis
    using height_width_divisible_by_8 [OF p, of "ex_pipeline [32, 64, 128, 256] ex_scheduler" "[]"]
      height_width_divisible_by_8 [OF q, of "ex_pipeline [32, 64, 128, 256] ex_scheduler" "[]"]
      ok
    by (simp add: ex_args_def check_inputs_def)
qed

text \<open>
  C1 as stated fails in both directions. With the two-block VAE of the repository's test
  fixture the factor is 2, and \<open>height = width = 2\<close>, positive multiples of it, are
  rejected. With a five-block VAE the factor is 16, and \<open>height = width = 8\<close>, not
  multiples of it, pass validation.
\<close>

theorem divisibility_by_vae_factor_counterexample:
  "vae_scale_factor (ex_pipeline [32, 64] ex_scheduler) = 2
   \<and> (2::int) mod 2 = 0
   \<and> rdm_call (ex_pipeline [32, 64] ex_scheduler) (ex_args\<lparr>height := 2, width := 2\<rparr>) []
        = (Inl (NotDivisibleBy8 2 2), [], [])
   \<and> vae_scale_factor (ex_pipeline [32, 64, 128, 256, 512] ex_scheduler) = 16
   \<and> (8::int) mod 16 \<noteq> 0
   \<and> height ex_args = 8 \<and> width ex_args = 8
   \<and> check_inputs ex_args = Inr 1"
  by (simp add: rdm_call_def rdm_generate_def rdm_denoise_def conditioning_def check_inputs_def
        vae_scale_factor_def
        ex_args_def ex_pipeline_def ex_vae_def)

section \<open>Structure of the trace\<close>

lemma encode_prompt_events:
  "e \<in> set (fst (encode_prompt pl p)) \<Longrightarrow> setup_event e"
  by (auto simp add: encode_prompt_def Let_def split: if_splits)

lemma fuse_images_events:
  "e \<in> set (fst (fuse_images pl b te ri)) \<Longrightarrow> setup_event e"
  by (auto simp add: fuse_images_def Let_def split: option.splits)

lemma conditioning_trace:
  "fst (conditioning pl a) = [] \<or>
   fst (conditioning pl a) = fst (encode_prompt pl (prompt a)) \<or>
   (\<exists>b te. fst (conditioning pl a) =
              fst (encode_prompt pl (prompt a)) @ fst (fuse_images pl b te (retrieved_images a)))"
proof (cases "check_inputs a")
  case (Inl err)
  then show ?thesis by (simp add: conditioning_def)
next
  case (Inr b)
  obtain ev1 r1 where p: "encode_prompt pl (prompt a) = (ev1, r1)"
    by (cases "encode_prompt pl (prompt a)")
  show ?thesis
  proof (cases r1)
    case (Inl err)
    with Inr p show ?thesis by (simp add: conditioning_def)
  next
    case r1: (Inr text_only)
    obtain ev2 r2 where f: "fuse_images pl b text_only (retrieved_images a) = (ev2, r2)"
      by (cases "fuse_images pl b text_only (retrieved_images a)")
    have "fst (conditioning pl a) = ev1 @ ev2"
      using Inr p r1 f by (simp add: conditioning_def split: sum.splits)
    then have "fst (conditioning pl a) =
        fst (encode_prompt pl (prompt a)) @ fst (fuse_images pl b text_only (retrieved_images a))"
      using p f by simp
    then show ?thesis by blast
  qed
qed

lemma conditioning_events:
  "e \<in> set (fst (conditioning pl a)) \<Longrightarrow> setup_event e"
  using conditioning_trace [of pl a]
  by (auto dest: encode_prompt_events fuse_images_events)

lemma prepare_latents_events:
  "e \<in> set (fst (prepare_latents pl ls a)) \<Longrightarrow> setup_event e"
  by (auto simp add: prepare_latents_def split: option.splits if_splits)

lemma denoise_step_events:
  "e \<in> set (snd (denoise_step pl env i t lat st)) \<Longrightarrow> loop_event e"
  by (auto simp add: denoise_step_def Let_def loop_event_def
        split: sum.splits prod.splits if_splits)

lemma denoise_loop_events:
  "e \<in> set (snd (snd (denoise_loop pl env i ts lat st))) \<Longrightarrow> loop_event e"
proof (induction ts arbitrary: e i lat st)
  case Nil
  then show ?case by simp
next
  case (Cons t ts)
  obtain r evs where step: "denoise_step pl env i t lat st = (r, evs)"
    by (cases "denoise_step pl env i t lat st")
  have evs: "x \<in> set evs \<Longrightarrow> loop_event x" for x
    using denoise_step_events [of x pl env i t lat st] step by simp
  show ?case
  proof (cases r)
    case (Inl err)
    have "snd (snd (denoise_loop pl env i (t # ts) lat st)) = evs"
      using step Inl by simp
    with Cons.prems evs show ?thesis by simp
  next
    case (Inr ok)
    obtain lat' st' where ok: "ok = (lat', st')" by (cases ok)
    obtain r' st'' evs' where rest:
      "denoise_loop pl env (Suc i) ts lat' st' = (r', st'', evs')"
      by (cases "denoise_loop pl env (Suc i) ts lat' st'")
    have evs': "x \<in> set evs' \<Longrightarrow> loop_event x" for x
      using Cons.IH [of x "Suc i" lat' st'] rest by simp
    have "snd (snd (denoise_loop pl env i (t # ts) lat st)) = evs @ evs'"
      using step Inr ok rest by simp
    with Cons.prems have "e \<in> set evs \<or> e \<in> set evs'" by simp
    then show ?thesis using evs evs' by blast
  qed
qed

text \<open>The parts of a run up to the end of the loop.\<close>

lemma rdm_denoise_cases:
  obtains (invalid) evc err where
      "conditioning pl a = (evc, Inl err)" "rdm_denoise pl a st = (Inl err, evc, st)"
  | (latents) evc b te evl err where
      "conditioning pl a = (evc, Inr (b, te))"
      "prepare_latents pl (latents_shape pl b a) a = (evl, Inl err)"
      "rdm_denoise pl a st = (Inl err, evc @ evl, st)"
  | (loop) evc b te evl lat0 r st2 evd where
      "conditioning pl a = (evc, Inr (b, te))"
      "prepare_latents pl (latents_shape pl b a) a = (evl, Inr lat0)"
      "denoise_loop pl (make_loop_env pl a te) 0
         (timesteps (scheduler pl) (set_timesteps (scheduler pl) (num_inference_steps a) st))
         (smul (init_noise_sigma (scheduler pl)
                  (set_timesteps (scheduler pl) (num_inference_steps a) st)) lat0)
         (set_timesteps (scheduler pl) (num_inference_steps a) st) = (r, st2, evd)"
      "rdm_denoise pl a st =
         (r, evc @ evl @ [ESetTimesteps (num_inference_steps a), EInspectSignature,
                          EInspectSignature] @ evd, st2)"
proof -
  obtain evc rc where c: "conditioning pl a = (evc, rc)" by (cases "conditioning pl a")
  show thesis
  proof (cases rc)
    case (Inl err)
    with c show thesis by (intro invalid [of evc err]) (simp_all add: rdm_denoise_def)
  next
    case (Inr bt)
    obtain b te where bt: "bt = (b, te)" by (cases bt)
    obtain evl rl where l: "prepare_latents pl (latents_shape pl b a) a = (evl, rl)"
      by (cases "prepare_latents pl (latents_shape pl b a) a")
    show thesis
    proof (cases rl)
      case (Inl err)
      with c Inr bt l show thesis
        by (intro latents [of evc b te evl err]) (simp_all add: rdm_denoise_def)
    next
      case lat: (Inr lat0)
      let ?st1 = "set_timesteps (scheduler pl) (num_inference_steps a) st"
      let ?loop = "denoise_loop pl (make_loop_env pl a te) 0 (timesteps (scheduler pl) ?st1)
                     (smul (init_noise_sigma (scheduler pl) ?st1) lat0) ?st1"
      obtain r st2 evd where d: "?loop = (r, st2, evd)" by (cases ?loop)
      show thesis
      proof (rule loop [of evc b te evl lat0 r st2 evd])
        show "conditioning pl a = (evc, Inr (b, te))" using c Inr bt by simp
        show "prepare_latents pl (latents_shape pl b a) a = (evl, Inr lat0)"
          using l lat by simp
        show "?loop = (r, st2, evd)" by (rule d)
        show "rdm_denoise pl a st =
           (r, evc @ evl @ [ESetTimesteps (num_inference_steps a), EInspectSignature,
                            EInspectSignature] @ evd, st2)"
          unfolding rdm_denoise_def Let_def using c Inr bt l lat d by simp
      qed
    qed
  qed
qed


section \<open>The example run\<close>

lemma ex_denoise:
  "rdm_denoise (ex_pipeline [32, 64, 128, 256] ex_scheduler) ex_args [] =
     (Inr \<lparr>shape = [1, 1, 1, 1], vals = [0]\<rparr>,
      [ETokenize [''cat''], ETextFeatures [[99, 97, 116, 0]],
       ERandn [1, 1, 1, 1] None, ESetTimesteps 2, EInspectSignature, EInspectSignature,
       EUnet \<lparr>shape = [1, 1, 1, 1], vals = [1]\<rparr> 1 \<lparr>shape = [1, 1, 2], vals = [0, 1]\<rparr>,
       EStep [(''eta'', KEta 0), (''generator'', KGenerator None)]
         \<lparr>shape = [1, 1, 1, 1], vals = [1]\<rparr> 1 \<lparr>shape = [1, 1, 1, 1], vals = [1]\<rparr>,
       EUnet \<lparr>shape = [1, 1, 1, 1], vals = [0]\<rparr> 0 \<lparr>shape = [1, 1, 2], vals = [0, 1]\<rparr>,
       EStep [(''eta'', KEta 0), (''generator'', KGenerator None)]
         \<lparr>shape = [1, 1, 1, 1], vals = [0]\<rparr> 0 \<lparr>shape = [1, 1, 1, 1], vals = [0]\<rparr>],
      [1, 0])"
  by (simp add: phase_defs tensor_defs ex_defs Let_def upt_rec numeral_2_eq_2)

lemma ex_generate:
  "rdm_generate (ex_pipeline [32, 64, 128, 256] ex_scheduler) ex_args [] =
     (Inr \<lparr>shape = [1, 1, 1, 3], vals = [0, 1 / 2, 1]\<rparr>,
      [ETokenize [''cat''], ETextFeatures [[99, 97, 116, 0]],
       ERandn [1, 1, 1, 1] None, ESetTimesteps 2, EInspectSignature, EInspectSignature,
       EUnet \<lparr>shape = [1, 1, 1, 1], vals = [1]\<rparr> 1 \<lparr>shape = [1, 1, 2], vals = [0, 1]\<rparr>,
       EStep [(''eta'', KEta 0), (''generator'', KGenerator None)]
         \<lparr>shape = [1, 1, 1, 1], vals = [1]\<rparr> 1 \<lparr>shape = [1, 1, 1, 1], vals = [1]\<rparr>,
       EUnet \<lparr>shape = [1, 1, 1, 1], vals = [0]\<rparr> 0 \<lparr>shape = [1, 1, 2], vals = [0, 1]\<rparr>,
       EStep [(''eta'', KEta 0), (''generator'', KGenerator None)]
         \<lparr>shape = [1, 1, 1, 1], vals = [0]\<rparr> 0 \<lparr>shape = [1, 1, 1, 1], vals = [0]\<rparr>,
       EDecode \<lparr>shape = [1, 1, 1, 1], vals = [0]\<rparr>],
      [1, 0])"
proof -
  have dec: "decode_latents (ex_pipeline [32, 64, 128, 256] ex_scheduler)
               \<lparr>shape = [1, 1, 1, 1], vals = [0]\<rparr>
             = ([EDecode \<lparr>shape = [1, 1, 1, 1], vals = [0]\<rparr>],
                Inr \<lparr>shape = [1, 1, 1, 3], vals = [0, 1 / 2, 1]\<rparr>)"
    by (simp add: decode_latents_def tensor_defs ex_pipeline_def ex_vae_def upt_rec
          numeral_2_eq_2 numeral_3_eq_3)
  show ?thesis
    by (simp add: rdm_generate_def ex_denoise dec [simplified])
qed

section \<open>Output form\<close>

lemma rdm_denoise_output_type:
  "rdm_denoise pl (a\<lparr>output_type := ot\<rparr>) st = rdm_denoise pl a st"
proof -
  have 1: "check_inputs (a\<lparr>output_type := ot\<rparr>) = check_inputs a"
    by (simp add: check_inputs_def split: sum.splits)
  have 2: "conditioning pl (a\<lparr>output_type := ot\<rparr>) = conditioning pl a"
    by (simp add: conditioning_def 1 do_classifier_free_guidance_def
          cong: sum.case_cong prod.case_cong)
  have 3: "latents_shape pl b (a\<lparr>output_type := ot\<rparr>) = latents_shape pl b a" for b
    by (simp add: latents_shape_def)
  have 4: "prepare_latents pl ls (a\<lparr>output_type := ot\<rparr>) = prepare_latents pl ls a" for ls
    by (simp add: prepare_latents_def split: option.splits)
  have 5: "make_loop_env pl (a\<lparr>output_type := ot\<rparr>) te = make_loop_env pl a te" for te
    by (simp add: make_loop_env_def prepare_extra_step_kwargs_def do_classifier_free_guidance_def)
  show ?thesis
    by (simp add: rdm_denoise_def 2 3 4 5 cong: sum.case_cong prod.case_cong)
qed

lemma rdm_generate_output_type:
  "rdm_generate pl (a\<lparr>output_type := ot\<rparr>) st = rdm_generate pl a st"
  by (simp add: rdm_generate_def rdm_denoise_output_type)

text \<open>
  C10. The value of \<open>output_type\<close> is never validated. Everything up to the decoded pixel
  array ignores it, so it cannot cause an error; afterwards the exact string \<open>pil\<close>
  converts the array with \<open>numpy_to_pil\<close>, and every other value, \<open>None\<close> and any other
  string alike, returns the array itself.
\<close>

theorem output_type_not_validated:
  "rdm_generate pl (a\<lparr>output_type := ot\<rparr>) st = rdm_generate pl a st
   \<and> rdm_call pl (a\<lparr>output_type := ot\<rparr>) st =
       (case rdm_generate pl a st of
          (Inl e, tr, st') \<Rightarrow> (Inl e, tr, st')
        | (Inr img, tr, st') \<Rightarrow>
            if ot = Some ''pil''
            then (Inr (if return_dict a then ImagePipelineOutput (PilImages (numpy_to_pil pl img))
                       else ReturnTuple (PilImages (numpy_to_pil pl img))),
                  tr @ [ENumpyToPil img], st')
            else (Inr (if return_dict a then ImagePipelineOutput (NumpyImages img)
                       else ReturnTuple (NumpyImages img)),
                  tr, st'))"
  by (simp add: rdm_call_def rdm_generate_output_type format_output_def
        split: prod.splits sum.splits)

theorem output_type_not_validated_witness:
  "fst (rdm_call (ex_pipeline [32, 64, 128, 256] ex_scheduler)
          (ex_args\<lparr>output_type := Some ''numpy''\<rparr>) [])
     = Inr (ImagePipelineOutput (NumpyImages \<lparr>shape = [1, 1, 1, 3], vals = [0, 1 / 2, 1]\<rparr>))
   \<and> fst (rdm_call (ex_pipeline [32, 64, 128, 256] ex_scheduler)
          (ex_args\<lparr>output_type := None\<rparr>) [])
     = Inr (ImagePipelineOutput (NumpyImages \<lparr>shape = [1, 1, 1, 3], vals = [0, 1 / 2, 1]\<rparr>))
   \<and> fst (rdm_call (ex_pipeline [32, 64, 128, 256] ex_scheduler)
          (ex_args\<lparr>output_type := Some ''PIL''\<rparr>) [])
     = Inr (ImagePipelineOutput (NumpyImages \<lparr>shape = [1, 1, 1, 3], vals = [0, 1 / 2, 1]\<rparr>))
   \<and> fst (rdm_call (ex_pipeline [32, 64, 128, 256] ex_scheduler)
          (ex_args\<lparr>output_type := Some ''pil''\<rparr>) [])
     = Inr (ImagePipelineOutput (PilImages [\<lparr>pil_size = (1, 1), pil_bytes = [0, 127, 255]\<rparr>]))"
proof -
  have rd: "return_dict ex_args" by (simp add: ex_args_def)
  have pil: "numpy_to_pil (ex_pipeline [32, 64, 128, 256] ex_scheduler)
               \<lparr>shape = [1, 1, 1, 3], vals = [0, 1 / 2, 1]\<rparr>
             = [\<lparr>pil_size = (1, 1), pil_bytes = [0, 127, 255]\<rparr>]"
    by (simp add: ex_pipeline_def numeral_3_eq_3)
  show ?thesis
    using output_type_not_validated [where pl = "ex_pipeline [32, 64, 128, 256] ex_scheduler"
        and a = ex_args and st = "[]" and ot = "Some ''numpy''"]
      output_type_not_validated [where pl = "ex_pipeline [32, 64, 128, 256] ex_scheduler"
        and a = ex_args and st = "[]" and ot = None]
      output_type_not_validated [where pl = "ex_pipeline [32, 64, 128, 256] ex_scheduler"
        and a = ex_args and st = "[]" and ot = "Some ''PIL''"]
      output_type_not_validated [where pl = "ex_pipeline [32, 64, 128, 256] ex_scheduler"
        and a = ex_args and st = "[]" and ot = "Some ''pil''"]
    by (simp add: ex_generate rd pil [simplified])
qed

section \<open>Decoding\<close>













section \<open>The loop body\<close>


text \<open>An iteration that completes made one U-Net call and one scheduler call, and
  invoked the callback when there is one and the step index is a multiple of
  \<open>callback_steps\<close>.\<close>

lemma denoise_step_Inr:
  assumes "denoise_step pl env i t lat st = (Inr (lat', st'), evs)"
  obtains doubled noise_pred where
    "(if env_cfg env then cat_dim0 lat lat else Inr lat) = Inr doubled"
    "guide (env_cfg env) (env_guidance_scale env)
       (unet_forward (unet pl) (scale_model_input (scheduler pl) st doubled t) t
          (env_text_embeddings env)) = Inr noise_pred"
    "call_step (scheduler pl) (env_kwargs env) noise_pred t lat st = Inr (lat', st')"
    "evs = [EUnet (scale_model_input (scheduler pl) st doubled t) t (env_text_embeddings env),
            EStep (env_kwargs env) noise_pred t lat] @
           (if env_has_callback env \<and> int i mod env_callback_steps env = 0
            then [ECallback i t lat'] else [])"
  using assms
  by (auto simp add: denoise_step_def Let_def split: sum.splits prod.splits if_splits)






text \<open>A loop that completes made one U-Net call per timestep and invoked the callback
  at the multiples of \<open>callback_steps\<close> among its step indices.\<close>

lemma denoise_loop_counts:
  assumes "denoise_loop pl env i ts lat st = (Inr out, s, evs)"
  shows "length (filter is_unet evs) = length ts
       \<and> length (filter is_step evs) = length ts
       \<and> map callback_index (filter is_callback evs) =
           (if env_has_callback env
            then filter (\<lambda>j. int j mod env_callback_steps env = 0) [i..<i + length ts]
            else [])
       \<and> map callback_timestep (filter is_callback evs) =
           (if env_has_callback env
            then map (\<lambda>j. ts ! (j - i))
                   (filter (\<lambda>j. int j mod env_callback_steps env = 0) [i..<i + length ts])
            else [])"
  using assms
proof (induction ts arbitrary: i lat st evs)
  case Nil
  then show ?case by simp
next
  case (Cons t ts)
  obtain r evs1 where step: "denoise_step pl env i t lat st = (r, evs1)"
    by (cases "denoise_step pl env i t lat st")
  obtain lat' st' where r: "r = Inr (lat', st')"
    using Cons.prems step by (cases r) auto
  obtain r' st'' evs2 where rest:
    "denoise_loop pl env (Suc i) ts lat' st' = (r', st'', evs2)"
    by (cases "denoise_loop pl env (Suc i) ts lat' st'")
  have r': "r' = Inr out" and s: "st'' = s" and evs: "evs = evs1 @ evs2"
    using Cons.prems step r rest by simp_all
  note IH = Cons.IH [OF rest [unfolded r' s]]
  have upt: "[i..<i + length (t # ts)] = i # [Suc i..<Suc i + length ts]"
    by (simp add: upt_rec)
  have shift: "map (\<lambda>j. (t # ts) ! (j - i)) js = map (\<lambda>j. ts ! (j - Suc i)) js"
    if "\<forall>j\<in>set js. Suc i \<le> j" for js
    using that by (induction js) (auto simp add: Suc_diff_le)
  have tail: "\<forall>j\<in>set (filter (\<lambda>j. int j mod env_callback_steps env = 0)
                 [Suc i..<Suc i + length ts]). Suc i \<le> j"
    by auto
  obtain x n where evs1:
      "evs1 = [EUnet x t (env_text_embeddings env), EStep (env_kwargs env) n t lat] @
           (if env_has_callback env \<and> int i mod env_callback_steps env = 0
            then [ECallback i t lat'] else [])"
    using step [unfolded r] by (rule denoise_step_Inr) blast
  show ?case
    unfolding evs upt evs1 using IH shift [OF tail] by simp
qed

section \<open>Which errors a phase can raise\<close>














section \<open>Scheduler keyword arguments\<close>





lemma ex_denoise_plain:
  "rdm_denoise (ex_pipeline [32, 64, 128, 256] ex_scheduler_plain)
     (ex_args\<lparr>callback := Some ex_callback\<rparr>) [] =
     (Inr \<lparr>shape = [1, 1, 1, 1], vals = [0]\<rparr>,
      [ETokenize [''cat''], ETextFeatures [[99, 97, 116, 0]],
       ERandn [1, 1, 1, 1] None, ESetTimesteps 2, EInspectSignature, EInspectSignature,
       EUnet \<lparr>shape = [1, 1, 1, 1], vals = [1]\<rparr> 2 \<lparr>shape = [1, 1, 2], vals = [0, 1]\<rparr>,
       EStep [] \<lparr>shape = [1, 1, 1, 1], vals = [1]\<rparr> 2 \<lparr>shape = [1, 1, 1, 1], vals = [1]\<rparr>,
       ECallback 0 2 \<lparr>shape = [1, 1, 1, 1], vals = [0]\<rparr>,
       EUnet \<lparr>shape = [1, 1, 1, 1], vals = [0]\<rparr> 1 \<lparr>shape = [1, 1, 2], vals = [0, 1]\<rparr>,
       EStep [] \<lparr>shape = [1, 1, 1, 1], vals = [0]\<rparr> 1 \<lparr>shape = [1, 1, 1, 1], vals = [0]\<rparr>,
       ECallback 1 1 \<lparr>shape = [1, 1, 1, 1], vals = [0]\<rparr>,
       EUnet \<lparr>shape = [1, 1, 1, 1], vals = [0]\<rparr> 0 \<lparr>shape = [1, 1, 2], vals = [0, 1]\<rparr>,
       EStep [] \<lparr>shape = [1, 1, 1, 1], vals = [0]\<rparr> 0 \<lparr>shape = [1, 1, 1, 1], vals = [0]\<rparr>,
       ECallback 2 0 \<lparr>shape = [1, 1, 1, 1], vals = [0]\<rparr>],
      [2, 1, 0])"
  by (simp add: phase_defs tensor_defs ex_defs Let_def upt_rec numeral_2_eq_2)



section \<open>The progress callback\<close>

lemma div_ceiling_step:
  fixes x k :: int
  assumes "0 < k"
  shows "(x + k) div k = (x + k - 1) div k + (if x mod k = 0 then 1 else 0)"
proof -
  have a: "(x + k) div k = x div k + 1" using assms by simp
  have "0 \<le> k - 1" "k - 1 < k" using assms by linarith+
  then have k1: "(k - 1) div k = 0" "(k - 1) mod k = k - 1"
    by (rule div_pos_pos_trivial, rule mod_pos_pos_trivial)
  have "(x + (k - 1)) div k = x div k + (k - 1) div k + (x mod k + (k - 1) mod k) div k"
    by (rule div_add1_eq)
  then have "(x + (k - 1)) div k = x div k + (x mod k + (k - 1)) div k"
    unfolding k1 by simp
  moreover have "x + (k - 1) = x + k - 1" by simp
  ultimately have b: "(x + k - 1) div k = x div k + (x mod k + (k - 1)) div k"
    by simp
  have m: "0 \<le> x mod k" "x mod k < k" using assms by simp_all
  have c: "(x mod k + (k - 1)) div k = (if x mod k = 0 then 0 else 1)"
  proof (cases "x mod k = 0")
    case True
    then show ?thesis by (simp add: k1)
  next
    case False
    define z where "z = x mod k - 1"
    have z: "0 \<le> z" "z < k" using m False by (simp_all add: z_def)
    have "z div k = 0" using z by (rule div_pos_pos_trivial)
    moreover have "(z + k) div k = z div k + 1" using assms by simp
    moreover have "x mod k + (k - 1) = z + k" by (simp add: z_def)
    ultimately have "(x mod k + (k - 1)) div k = 1" by (simp only:)
    with False show ?thesis by simp
  qed
  show ?thesis using a b c by simp
qed

lemma ceiling_divide_int:
  fixes x k :: int
  assumes "0 < k"
  shows "\<lceil>real_of_int x / real_of_int k\<rceil> = (x + k - 1) div k"
proof -
  have "\<lceil>real_of_int x / real_of_int k\<rceil> = - ((- x) div k)"
    by (simp add: ceiling_divide_eq_div)
  also have "\<dots> = (if x mod k = 0 then x div k else x div k + 1)"
    using assms by (simp add: zdiv_zminus1_eq_if)
  also have "\<dots> = (x + k - 1) div k"
    using div_ceiling_step [OF assms, of x] assms by (simp split: if_splits)
  finally show ?thesis .
qed

lemma count_multiples_below:
  fixes k :: int
  assumes "0 < k"
  shows "int (length (filter (\<lambda>j. int j mod k = 0) [0..<T])) = (int T + k - 1) div k"
proof (induction T)
  case 0
  then show ?case using assms by simp
next
  case (Suc T)
  have "(int (Suc T) + k - 1) div k = (int T + k) div k" by (simp add: algebra_simps)
  also have "\<dots> = (int T + k - 1) div k + (if int T mod k = 0 then 1 else 0)"
    by (rule div_ceiling_step [OF assms])
  finally show ?case using Suc by simp
qed

lemma check_inputs_callback_steps:
  assumes "check_inputs a = Inr b"
  obtains k where "callback_steps a = CInt k" and "0 < k"
  using assms
  by (cases "callback_steps a")
     (auto simp add: check_inputs_def split: sum.splits if_splits)

lemma conditioning_Inr:
  assumes "conditioning pl a = (evc, Inr (b, te))"
  shows "check_inputs a = Inr b"
  using assms by (auto simp add: conditioning_def split: sum.splits prod.splits)

lemma setup_not_callback: "setup_event e \<Longrightarrow> \<not> is_callback e"
  by (cases e) simp_all

lemma rdm_denoise_Inr:
  assumes "rdm_denoise pl a st = (Inr lat, tr, s)"
  obtains evc b te evl lat0 evd where
      "conditioning pl a = (evc, Inr (b, te))"
      "prepare_latents pl (latents_shape pl b a) a = (evl, Inr lat0)"
      "denoise_loop pl (make_loop_env pl a te) 0
         (timesteps (scheduler pl) (set_timesteps (scheduler pl) (num_inference_steps a) st))
         (smul (init_noise_sigma (scheduler pl)
                  (set_timesteps (scheduler pl) (num_inference_steps a) st)) lat0)
         (set_timesteps (scheduler pl) (num_inference_steps a) st) = (Inr lat, s, evd)"
      "tr = evc @ evl @ [ESetTimesteps (num_inference_steps a), EInspectSignature,
                         EInspectSignature] @ evd"
proof (cases pl a st rule: rdm_denoise_cases)
  case (invalid evc err)
  with assms show ?thesis by simp
next
  case (latents evc b te evl err)
  with assms show ?thesis by simp
next
  case (loop evc b te evl lat0 r st2 evd)
  with assms have "r = Inr lat" "st2 = s"
    and "tr = evc @ evl @ [ESetTimesteps (num_inference_steps a), EInspectSignature,
                           EInspectSignature] @ evd"
    by simp_all
  with loop(1,2,3) that show ?thesis by blast
qed

text \<open>
  C5, as amended. In a call that supplies a callback and completes its loop,
  \<open>callback_steps\<close> is a positive integer \<open>k\<close>, and the callback is invoked at the step
  indices \<open>0, k, 2k, \<dots>\<close> below \<open>T\<close>, in increasing order, where \<open>T\<close> is the number of
  timesteps the scheduler reports after \<open>set_timesteps(num_inference_steps)\<close>; the
  invocation at index \<open>j\<close> gets the \<open>j\<close>-th timestep, and within an iteration it gets the
  latents that \<open>step\<close> returned in that iteration. So the callback fires
  \<open>\<lceil>T / k\<rceil>\<close> times, which is \<open>\<lceil>num_inference_steps / k\<rceil>\<close> when the scheduler
  reports one timestep per requested step.
\<close>

theorem callback_cadence:
  assumes "rdm_denoise pl a st = (Inr lat, tr, s)"
    and "callback a \<noteq> None"
  shows "\<exists>k. callback_steps a = CInt k \<and> 0 < k
       \<and> map callback_index (filter is_callback tr) =
           filter (\<lambda>j. int j mod k = 0)
             [0..<length (timesteps (scheduler pl)
                            (set_timesteps (scheduler pl) (num_inference_steps a) st))]
       \<and> map callback_timestep (filter is_callback tr) =
           map (\<lambda>j. timesteps (scheduler pl)
                       (set_timesteps (scheduler pl) (num_inference_steps a) st) ! j)
             (filter (\<lambda>j. int j mod k = 0)
               [0..<length (timesteps (scheduler pl)
                              (set_timesteps (scheduler pl) (num_inference_steps a) st))])
       \<and> sorted_wrt (<) (map callback_index (filter is_callback tr))
       \<and> int (length (filter is_callback tr)) =
           \<lceil>real (length (timesteps (scheduler pl)
                    (set_timesteps (scheduler pl) (num_inference_steps a) st)))
             / real_of_int k\<rceil>
       \<and> (int (length (timesteps (scheduler pl)
                    (set_timesteps (scheduler pl) (num_inference_steps a) st)))
             = num_inference_steps a \<longrightarrow>
           int (length (filter is_callback tr)) =
             \<lceil>real_of_int (num_inference_steps a) / real_of_int k\<rceil>)
       \<and> (\<forall>te i t l st0 l' st' evs.
             denoise_step pl (make_loop_env pl a te) i t l st0 = (Inr (l', st'), evs) \<longrightarrow>
             filter is_callback evs = (if int i mod k = 0 then [ECallback i t l'] else []))"
proof -
  let ?ts = "timesteps (scheduler pl) (set_timesteps (scheduler pl) (num_inference_steps a) st)"
  obtain evc b te evl lat0 evd where
      c: "conditioning pl a = (evc, Inr (b, te))"
      and l: "prepare_latents pl (latents_shape pl b a) a = (evl, Inr lat0)"
      and d: "denoise_loop pl (make_loop_env pl a te) 0 ?ts
         (smul (init_noise_sigma (scheduler pl)
                  (set_timesteps (scheduler pl) (num_inference_steps a) st)) lat0)
         (set_timesteps (scheduler pl) (num_inference_steps a) st) = (Inr lat, s, evd)"
      and tr: "tr = evc @ evl @ [ESetTimesteps (num_inference_steps a), EInspectSignature,
                         EInspectSignature] @ evd"
    using assms(1) by (rule rdm_denoise_Inr)
  obtain k where k: "callback_steps a = CInt k" and pos: "0 < k"
    using conditioning_Inr [OF c] by (rule check_inputs_callback_steps)
  have env: "env_has_callback (make_loop_env pl a te')"
            "env_callback_steps (make_loop_env pl a te') = k" for te'
    using assms(2) k by (simp_all add: make_loop_env_def)
  have "filter is_callback evc = []"
    using conditioning_events [of _ pl a] c setup_not_callback
    by (auto simp add: filter_empty_conv)
  moreover have "filter is_callback evl = []"
    using prepare_latents_events [of _ pl "latents_shape pl b a" a] l setup_not_callback
    by (auto simp add: filter_empty_conv)
  ultimately have cb: "filter is_callback tr = filter is_callback evd"
    by (simp add: tr)
  note counts = denoise_loop_counts [OF d]
  have idx: "map callback_index (filter is_callback tr) =
           filter (\<lambda>j. int j mod k = 0) [0..<length ?ts]"
    using counts by (simp add: cb env)
  have tms: "map callback_timestep (filter is_callback tr) =
           map (\<lambda>j. ?ts ! j) (filter (\<lambda>j. int j mod k = 0) [0..<length ?ts])"
    using counts by (simp add: cb env)
  have srt: "sorted_wrt (<) (map callback_index (filter is_callback tr))"
    unfolding idx by (intro sorted_wrt_filter) simp
  have "int (length (filter is_callback tr))
          = int (length (map callback_index (filter is_callback tr)))" by simp
  also have "\<dots> = (int (length ?ts) + k - 1) div k"
    unfolding idx by (rule count_multiples_below [OF pos])
  also have "\<dots> = \<lceil>real_of_int (int (length ?ts)) / real_of_int k\<rceil>"
    by (rule ceiling_divide_int [OF pos, symmetric])
  finally have cnt: "int (length (filter is_callback tr)) =
           \<lceil>real (length ?ts) / real_of_int k\<rceil>" by simp
  have cnt': "int (length ?ts) = num_inference_steps a \<longrightarrow>
           int (length (filter is_callback tr)) =
             \<lceil>real_of_int (num_inference_steps a) / real_of_int k\<rceil>"
  proof
    assume "int (length ?ts) = num_inference_steps a"
    then have "real (length ?ts) = real_of_int (num_inference_steps a)"
      by (metis of_int_of_nat_eq)
    with cnt show "int (length (filter is_callback tr)) =
             \<lceil>real_of_int (num_inference_steps a) / real_of_int k\<rceil>" by simp
  qed
  have body: "\<forall>te i t l st0 l' st' evs.
             denoise_step pl (make_loop_env pl a te) i t l st0 = (Inr (l', st'), evs) \<longrightarrow>
             filter is_callback evs = (if int i mod k = 0 then [ECallback i t l'] else [])"
  proof (intro allI impI)
    fix te' i t l st0 l' st' evs
    assume "denoise_step pl (make_loop_env pl a te') i t l st0 = (Inr (l', st'), evs)"
    then show "filter is_callback evs = (if int i mod k = 0 then [ECallback i t l'] else [])"
      by (rule denoise_step_Inr) (simp add: env)
  qed
  show ?thesis
    by (intro exI [of _ k] conjI k pos idx tms srt cnt cnt' body)
qed

lemma ex_denoise_callback:
  "rdm_denoise (ex_pipeline [32, 64, 128, 256] ex_scheduler)
     (ex_args\<lparr>num_inference_steps := 3, callback := Some ex_callback,
               callback_steps := CInt 2\<rparr>) [] =
     (Inr \<lparr>shape = [1, 1, 1, 1], vals = [0]\<rparr>,
      [ETokenize [''cat''], ETextFeatures [[99, 97, 116, 0]],
       ERandn [1, 1, 1, 1] None, ESetTimesteps 3, EInspectSignature, EInspectSignature,
       EUnet \<lparr>shape = [1, 1, 1, 1], vals = [1]\<rparr> 2 \<lparr>shape = [1, 1, 2], vals = [0, 1]\<rparr>,
       EStep [(''eta'', KEta 0), (''generator'', KGenerator None)]
         \<lparr>shape = [1, 1, 1, 1], vals = [1]\<rparr> 2 \<lparr>shape = [1, 1, 1, 1], vals = [1]\<rparr>,
       ECallback 0 2 \<lparr>shape = [1, 1, 1, 1], vals = [0]\<rparr>,
       EUnet \<lparr>shape = [1, 1, 1, 1], vals = [0]\<rparr> 1 \<lparr>shape = [1, 1, 2], vals = [0, 1]\<rparr>,
       EStep [(''eta'', KEta 0), (''generator'', KGenerator None)]
         \<lparr>shape = [1, 1, 1, 1], vals = [0]\<rparr> 1 \<lparr>shape = [1, 1, 1, 1], vals = [0]\<rparr>,
       EUnet \<lparr>shape = [1, 1, 1, 1], vals = [0]\<rparr> 0 \<lparr>shape = [1, 1, 2], vals = [0, 1]\<rparr>,
       EStep [(''eta'', KEta 0), (''generator'', KGenerator None)]
         \<lparr>shape = [1, 1, 1, 1], vals = [0]\<rparr> 0 \<lparr>shape = [1, 1, 1, 1], vals = [0]\<rparr>,
       ECallback 2 0 \<lparr>shape = [1, 1, 1, 1], vals = [0]\<rparr>],
      [2, 1, 0])"
  by (simp add: phase_defs tensor_defs ex_defs Let_def upt_rec numeral_2_eq_2 numeral_3_eq_3)

theorem callback_cadence_witness:
  "callback (ex_args\<lparr>num_inference_steps := 3, callback := Some ex_callback,
                     callback_steps := CInt 2\<rparr>) \<noteq> None
   \<and> map callback_index (filter is_callback (fst (snd
         (rdm_denoise (ex_pipeline [32, 64, 128, 256] ex_scheduler)
            (ex_args\<lparr>num_inference_steps := 3, callback := Some ex_callback,
                      callback_steps := CInt 2\<rparr>) [])))) = [0, 2]
   \<and> int (length (filter is_callback (fst (snd
         (rdm_denoise (ex_pipeline [32, 64, 128, 256] ex_scheduler)
            (ex_args\<lparr>num_inference_steps := 3, callback := Some ex_callback,
                      callback_steps := CInt 2\<rparr>) []))))) = \<lceil>(3::real) / 2\<rceil>"
proof -
  let ?pl = "ex_pipeline [32, 64, 128, 256] ex_scheduler"
  let ?a = "ex_args\<lparr>num_inference_steps := 3, callback := Some ex_callback,
                     callback_steps := CInt 2\<rparr>"
  let ?tr = "fst (snd (rdm_denoise ?pl ?a []))"
  have cb: "callback ?a \<noteq> None" by simp
  have den: "rdm_denoise ?pl ?a [] = (Inr \<lparr>shape = [1, 1, 1, 1], vals = [0]\<rparr>, ?tr, [2, 1, 0])"
    unfolding ex_denoise_callback by simp
  have ts: "timesteps (scheduler ?pl) (set_timesteps (scheduler ?pl) (num_inference_steps ?a) [])
              = [2, 1, 0]"
    by (simp add: ex_pipeline_def ex_scheduler_def upt_rec numeral_2_eq_2 numeral_3_eq_3)
  obtain k where k: "callback_steps ?a = CInt k"
    and idx: "map callback_index (filter is_callback ?tr) =
           filter (\<lambda>j. int j mod k = 0)
             [0..<length (timesteps (scheduler ?pl)
                            (set_timesteps (scheduler ?pl) (num_inference_steps ?a) []))]"
    and cnt: "int (length (filter is_callback ?tr)) =
           \<lceil>real (length (timesteps (scheduler ?pl)
                    (set_timesteps (scheduler ?pl) (num_inference_steps ?a) [])))
             / real_of_int k\<rceil>"
    using callback_cadence [OF den cb] by blast
  have k2: "k = 2" using k by simp
  have "map callback_index (filter is_callback ?tr) = [0, 2]"
    unfolding idx ts k2 by (simp add: upt_rec numeral_2_eq_2 numeral_3_eq_3)
  moreover have "int (length (filter is_callback ?tr)) = \<lceil>(3::real) / 2\<rceil>"
    unfolding cnt ts k2 by simp
  ultimately show ?thesis using cb by blast
qed

lemma rdm_call_callbacks:
  "filter is_callback (fst (snd (rdm_call pl a st))) =
     filter is_callback (fst (snd (rdm_denoise pl a st)))"
proof -
  have dec: "filter is_callback (fst (decode_latents pl lat)) = []" for lat
    by (simp add: decode_latents_def Let_def)
  have fmt: "filter is_callback (fst (format_output pl a img)) = []" for img
    by (simp add: format_output_def)
  have gen: "filter is_callback (fst (snd (rdm_generate pl a st))) =
               filter is_callback (fst (snd (rdm_denoise pl a st)))"
  proof (cases "rdm_denoise pl a st")
    case (fields r tr s)
    show ?thesis
    proof (cases r)
      case (Inl err)
      with fields show ?thesis by (simp add: rdm_generate_def)
    next
      case (Inr lat)
      with fields dec [of lat] show ?thesis
        by (cases "decode_latents pl lat") (simp add: rdm_generate_def)
    qed
  qed
  show ?thesis
  proof (cases "rdm_generate pl a st")
    case (fields r tr s)
    show ?thesis
    proof (cases r)
      case (Inl err)
      with fields gen show ?thesis by (simp add: rdm_call_def)
    next
      case (Inr img)
      with fields gen fmt [of img] show ?thesis
        by (cases "format_output pl a img") (simp add: rdm_call_def)
    qed
  qed
qed

lemma ex_call_plain:
  "fst (rdm_call (ex_pipeline [32, 64, 128, 256] ex_scheduler_plain)
          (ex_args\<lparr>callback := Some ex_callback\<rparr>) [])
     = Inr (ImagePipelineOutput (PilImages [\<lparr>pil_size = (1, 1), pil_bytes = [0, 127, 255]\<rparr>]))"
proof -
  let ?pl = "ex_pipeline [32, 64, 128, 256] ex_scheduler_plain"
  have dec: "decode_latents ?pl \<lparr>shape = [1, 1, 1, 1], vals = [0]\<rparr>
             = ([EDecode \<lparr>shape = [1, 1, 1, 1], vals = [0]\<rparr>],
                Inr \<lparr>shape = [1, 1, 1, 3], vals = [0, 1 / 2, 1]\<rparr>)"
    by (simp add: decode_latents_def tensor_defs ex_pipeline_def ex_vae_def upt_rec
          numeral_2_eq_2 numeral_3_eq_3)
  have pil: "numpy_to_pil ?pl \<lparr>shape = [1, 1, 1, 3], vals = [0, 1 / 2, 1]\<rparr>
             = [\<lparr>pil_size = (1, 1), pil_bytes = [0, 127, 255]\<rparr>]"
    by (simp add: ex_pipeline_def numeral_3_eq_3)
  have ot: "output_type (ex_args\<lparr>callback := Some ex_callback\<rparr>) = Some ''pil''"
    and rd: "return_dict (ex_args\<lparr>callback := Some ex_callback\<rparr>)"
    by (simp_all add: ex_args_def)
  show ?thesis
    by (simp add: rdm_call_def rdm_generate_def ex_denoise_plain dec [simplified]
          format_output_def ot rd pil [simplified])
qed

text \<open>
  C5 as stated fails for a scheduler that reports more timesteps than were requested.
  With \<open>num_inference_steps = 2\<close> and \<open>callback_steps = 1\<close> the claim gives
  \<open>\<lceil>2 / 1\<rceil> = 2\<close> invocations; the scheduler \<open>ex_scheduler_plain\<close> reports three
  timesteps, the loop runs three times, and the callback fires three times in a call
  that returns its images.
\<close>

theorem callback_count_counterexample:
  "callback (ex_args\<lparr>callback := Some ex_callback\<rparr>) = Some ex_callback
   \<and> callback_steps (ex_args\<lparr>callback := Some ex_callback\<rparr>) = CInt 1
   \<and> num_inference_steps (ex_args\<lparr>callback := Some ex_callback\<rparr>) = 2
   \<and> \<lceil>(2::real) / 1\<rceil> = 2
   \<and> fst (rdm_call (ex_pipeline [32, 64, 128, 256] ex_scheduler_plain)
          (ex_args\<lparr>callback := Some ex_callback\<rparr>) [])
        = Inr (ImagePipelineOutput (PilImages [\<lparr>pil_size = (1, 1), pil_bytes = [0, 127, 255]\<rparr>]))
   \<and> map callback_index (filter is_callback (fst (snd
         (rdm_call (ex_pipeline [32, 64, 128, 256] ex_scheduler_plain)
            (ex_args\<lparr>callback := Some ex_callback\<rparr>) [])))) = [0, 1, 2]
   \<and> length (filter is_callback (fst (snd
         (rdm_call (ex_pipeline [32, 64, 128, 256] ex_scheduler_plain)
            (ex_args\<lparr>callback := Some ex_callback\<rparr>) [])))) = 3"
  unfolding rdm_call_callbacks ex_call_plain ex_denoise_plain by (simp add: ex_args_def)

section \<open>Prompt truncation\<close>

lemma tokenizer_call_lengths:
  "map length (tokenizer_call tk ps) = replicate (length ps) (model_max_length tk)"
  by (induction ps) (simp_all add: tokenizer_call_def Let_def)

lemma ids_width_tokenizer_call:
  "ids_width (tokenizer_call tk ps) \<le> model_max_length tk"
proof (cases ps)
  case Nil
  then show ?thesis by (simp add: tokenizer_call_def ids_width_def)
next
  case (Cons p rest)
  then show ?thesis by (simp add: tokenizer_call_def ids_width_def Let_def)
qed

text \<open>The branch of lines 324--330 is never taken.\<close>

lemma encode_prompt_trace:
  "fst (encode_prompt pl p) =
     [ETokenize (prompt_list p), ETextFeatures (tokenizer_call (tokenizer pl) (prompt_list p))]"
  using ids_width_tokenizer_call [of "tokenizer pl" "prompt_list p"]
  by (simp add: encode_prompt_def Let_def)

lemma conditioning_no_warning: "filter is_warning (fst (conditioning pl a)) = []"
proof -
  have 1: "filter is_warning (fst (encode_prompt pl p)) = []" for p
    by (simp add: encode_prompt_trace)
  have 2: "filter is_warning (fst (fuse_images pl b te ri)) = []" for b te ri
    by (simp add: fuse_images_def Let_def split: option.splits)
  show ?thesis
    using conditioning_trace [of pl a] by (auto simp add: 1 2)
qed

lemma loop_event_not_warning: "loop_event e \<Longrightarrow> \<not> is_warning e"
  by (cases e) (simp_all add: loop_event_def)

lemma rdm_denoise_no_warning: "filter is_warning (fst (snd (rdm_denoise pl a st))) = []"
proof (cases pl a st rule: rdm_denoise_cases)
  case (invalid evc err)
  with conditioning_no_warning [of pl a] show ?thesis by simp
next
  case (latents evc b te evl err)
  have "filter is_warning evl = []"
    using latents(2) by (auto simp add: prepare_latents_def split: option.splits if_splits)
  with conditioning_no_warning [of pl a] latents(1,3) show ?thesis by simp
next
  case (loop evc b te evl lat0 r st2 evd)
  have "filter is_warning evl = []"
    using loop(2) by (auto simp add: prepare_latents_def split: option.splits if_splits)
  moreover have "filter is_warning evd = []"
  proof -
    have "evd = snd (snd (denoise_loop pl (make_loop_env pl a te) 0
         (timesteps (scheduler pl) (set_timesteps (scheduler pl) (num_inference_steps a) st))
         (smul (init_noise_sigma (scheduler pl)
                  (set_timesteps (scheduler pl) (num_inference_steps a) st)) lat0)
         (set_timesteps (scheduler pl) (num_inference_steps a) st)))"
      using loop(3) by simp
    then have "\<forall>e\<in>set evd. loop_event e"
      by (simp only:) (intro ballI, rule denoise_loop_events)
    then show ?thesis using loop_event_not_warning by (auto simp add: filter_empty_conv)
  qed
  ultimately show ?thesis using conditioning_no_warning [of pl a] loop(1,4) by simp
qed

lemma rdm_call_warnings:
  "filter is_warning (fst (snd (rdm_call pl a st))) =
     filter is_warning (fst (snd (rdm_denoise pl a st)))"
proof -
  have dec: "filter is_warning (fst (decode_latents pl lat)) = []" for lat
    by (simp add: decode_latents_def Let_def)
  have fmt: "filter is_warning (fst (format_output pl a img)) = []" for img
    by (simp add: format_output_def)
  have gen: "filter is_warning (fst (snd (rdm_generate pl a st))) =
               filter is_warning (fst (snd (rdm_denoise pl a st)))"
  proof (cases "rdm_denoise pl a st")
    case (fields r tr s)
    show ?thesis
    proof (cases r)
      case (Inl err)
      with fields show ?thesis by (simp add: rdm_generate_def)
    next
      case (Inr lat)
      with fields dec [of lat] show ?thesis
        by (cases "decode_latents pl lat") (simp add: rdm_generate_def)
    qed
  qed
  show ?thesis
  proof (cases "rdm_generate pl a st")
    case (fields r tr s)
    show ?thesis
    proof (cases r)
      case (Inl err)
      with fields gen show ?thesis by (simp add: rdm_call_def)
    next
      case (Inr img)
      with fields gen fmt [of img] show ?thesis
        by (cases "format_output pl a img") (simp add: rdm_call_def)
    qed
  qed
qed

text \<open>
  C8, what the code does. The tokenizer is called with \<open>truncation=True\<close>, so every row
  of \<open>input_ids\<close> has exactly \<open>model_max_length\<close> entries, the test
  \<open>text_input_ids.shape[-1] > model_max_length\<close> is false for every prompt, and no call
  logs the truncation warning: the trace of a call has no \<open>EWarning\<close> event, however long
  the prompt is. The text features are computed from the truncated ids.
\<close>

theorem truncation_warning_never_logged:
  "filter is_warning (fst (snd (rdm_call pl a st))) = []
   \<and> fst (encode_prompt pl (prompt a)) =
       [ETokenize (prompt_list (prompt a)),
        ETextFeatures (tokenizer_call (tokenizer pl) (prompt_list (prompt a)))]
   \<and> map length (tokenizer_call (tokenizer pl) (prompt_list (prompt a))) =
       replicate (length (prompt_list (prompt a))) (model_max_length (tokenizer pl))"
  by (simp add: rdm_call_warnings rdm_denoise_no_warning encode_prompt_trace
        tokenizer_call_lengths)

lemma ex_call_finish:
  assumes "rdm_denoise (ex_pipeline chans sch) a st
             = (Inr \<lparr>shape = [1, 1, 1, 1], vals = [0]\<rparr>, tr, s)"
    and "output_type a = Some ''pil''" and "return_dict a"
  shows "fst (rdm_call (ex_pipeline chans sch) a st)
     = Inr (ImagePipelineOutput (PilImages [\<lparr>pil_size = (1, 1), pil_bytes = [0, 127, 255]\<rparr>]))"
proof -
  let ?pl = "ex_pipeline chans sch"
  have dec: "decode_latents ?pl \<lparr>shape = [1, 1, 1, 1], vals = [0]\<rparr>
             = ([EDecode \<lparr>shape = [1, 1, 1, 1], vals = [0]\<rparr>],
                Inr \<lparr>shape = [1, 1, 1, 3], vals = [0, 1 / 2, 1]\<rparr>)"
    by (simp add: decode_latents_def tensor_defs ex_pipeline_def ex_vae_def upt_rec
          numeral_2_eq_2 numeral_3_eq_3)
  have pil: "numpy_to_pil ?pl \<lparr>shape = [1, 1, 1, 3], vals = [0, 1 / 2, 1]\<rparr>
             = [\<lparr>pil_size = (1, 1), pil_bytes = [0, 127, 255]\<rparr>]"
    by (simp add: ex_pipeline_def numeral_3_eq_3)
  show ?thesis
    by (simp add: rdm_call_def rdm_generate_def assms(1) [simplified] dec [simplified]
          format_output_def assms(2,3) pil [simplified])
qed

lemma ex_denoise_long_prompt:
  "rdm_denoise (ex_pipeline [32, 64, 128, 256] ex_scheduler)
     (ex_args\<lparr>prompt := PStr ''a photo of a cat''\<rparr>) [] =
     (Inr \<lparr>shape = [1, 1, 1, 1], vals = [0]\<rparr>,
      [ETokenize [''a photo of a cat''], ETextFeatures [[97, 32, 112, 104]],
       ERandn [1, 1, 1, 1] None, ESetTimesteps 2, EInspectSignature, EInspectSignature,
       EUnet \<lparr>shape = [1, 1, 1, 1], vals = [1]\<rparr> 1 \<lparr>shape = [1, 1, 2], vals = [0, 1]\<rparr>,
       EStep [(''eta'', KEta 0), (''generator'', KGenerator None)]
         \<lparr>shape = [1, 1, 1, 1], vals = [1]\<rparr> 1 \<lparr>shape = [1, 1, 1, 1], vals = [1]\<rparr>,
       EUnet \<lparr>shape = [1, 1, 1, 1], vals = [0]\<rparr> 0 \<lparr>shape = [1, 1, 2], vals = [0, 1]\<rparr>,
       EStep [(''eta'', KEta 0), (''generator'', KGenerator None)]
         \<lparr>shape = [1, 1, 1, 1], vals = [0]\<rparr> 0 \<lparr>shape = [1, 1, 1, 1], vals = [0]\<rparr>],
      [1, 0])"
  by (simp add: phase_defs tensor_defs ex_defs Let_def upt_rec numeral_2_eq_2)

text \<open>The prompt \<open>a photo of a cat\<close> has sixteen token ids under \<open>ex_tokenizer\<close>, whose
  limit is four: the call keeps the first four, logs nothing, and returns its image.\<close>

theorem truncation_warning_never_logged_witness:
  "model_max_length (tokenizer (ex_pipeline [32, 64, 128, 256] ex_scheduler)) = 4
   \<and> length (tok_encode (tokenizer (ex_pipeline [32, 64, 128, 256] ex_scheduler))
         ''a photo of a cat'') = 16
   \<and> fst (encode_prompt (ex_pipeline [32, 64, 128, 256] ex_scheduler)
         (prompt (ex_args\<lparr>prompt := PStr ''a photo of a cat''\<rparr>)))
       = [ETokenize [''a photo of a cat''], ETextFeatures [[97, 32, 112, 104]]]
   \<and> filter is_warning (fst (snd (rdm_call (ex_pipeline [32, 64, 128, 256] ex_scheduler)
         (ex_args\<lparr>prompt := PStr ''a photo of a cat''\<rparr>) []))) = []
   \<and> fst (rdm_call (ex_pipeline [32, 64, 128, 256] ex_scheduler)
         (ex_args\<lparr>prompt := PStr ''a photo of a cat''\<rparr>) [])
       = Inr (ImagePipelineOutput (PilImages [\<lparr>pil_size = (1, 1), pil_bytes = [0, 127, 255]\<rparr>]))"
proof -
  let ?pl = "ex_pipeline [32, 64, 128, 256] ex_scheduler"
  let ?a = "ex_args\<lparr>prompt := PStr ''a photo of a cat''\<rparr>"
  have tk: "model_max_length (tokenizer ?pl) = 4"
    "length (tok_encode (tokenizer ?pl) ''a photo of a cat'') = 16"
    by (simp_all add: ex_pipeline_def ex_tokenizer_def)
  have ids: "tokenizer_call (tokenizer ?pl) (prompt_list (prompt ?a)) = [[97, 32, 112, 104]]"
    by (simp add: tokenizer_call_def ex_pipeline_def ex_tokenizer_def)
  have fin: "fst (rdm_call ?pl ?a [])
       = Inr (ImagePipelineOutput (PilImages [\<lparr>pil_size = (1, 1), pil_bytes = [0, 127, 255]\<rparr>]))"
    by (rule ex_call_finish [OF ex_denoise_long_prompt]) (simp_all add: ex_args_def)
  from truncation_warning_never_logged [of ?pl ?a "[]"]
  have "filter is_warning (fst (snd (rdm_call ?pl ?a []))) = []"
    and "fst (encode_prompt ?pl (prompt ?a))
          = [ETokenize [''a photo of a cat''], ETextFeatures [[97, 32, 112, 104]]]"
    unfolding ids by simp_all
  with tk fin show ?thesis by (intro conjI)
qed

section \<open>Pre-supplied latents\<close>

lemma conditioning_Inr_parts:
  assumes "conditioning pl a = (evc, Inr (b, te))"
  obtains text_only fused duplicated where
      "check_inputs a = Inr b"
      "snd (encode_prompt pl (prompt a)) = Inr text_only"
      "snd (fuse_images pl b text_only (retrieved_images a)) = Inr fused"
      "duplicate_per_prompt fused (num_images_per_prompt a) = Inr duplicated"
      "add_uncond (do_classifier_free_guidance a) duplicated = Inr te"
      "evc = fst (encode_prompt pl (prompt a)) @
             fst (fuse_images pl b text_only (retrieved_images a))"
proof -
  have ci: "check_inputs a = Inr b" using assms by (rule conditioning_Inr)
  obtain ev1 r1 where p: "encode_prompt pl (prompt a) = (ev1, r1)"
    by (cases "encode_prompt pl (prompt a)")
  obtain text_only where r1: "r1 = Inr text_only"
    using assms ci p by (cases r1) (simp_all add: conditioning_def)
  obtain ev2 r2 where f: "fuse_images pl b text_only (retrieved_images a) = (ev2, r2)"
    by (cases "fuse_images pl b text_only (retrieved_images a)")
  obtain fused where r2: "r2 = Inr fused"
    using assms ci p r1 f by (cases r2) (simp_all add: conditioning_def)
  obtain duplicated where
    dup: "duplicate_per_prompt fused (num_images_per_prompt a) = Inr duplicated"
    using assms ci p r1 f r2
    by (cases "duplicate_per_prompt fused (num_images_per_prompt a)")
       (simp_all add: conditioning_def)
  have unc: "add_uncond (do_classifier_free_guidance a) duplicated = Inr te"
    and evc: "evc = ev1 @ ev2"
    using assms ci p r1 f r2 dup
    by (cases "add_uncond (do_classifier_free_guidance a) duplicated";
        simp add: conditioning_def)+
  show thesis
    using that [of text_only fused duplicated] ci p r1 f r2 dup unc evc by simp
qed

lemma fuse_images_trace:
  "fst (fuse_images pl b te ri) =
     (case ri of
        None \<Rightarrow> []
      | Some ims \<Rightarrow>
          [EImageFeatures (preprocess_images (normalize_images ims) (feature_extractor pl))])"
  by (simp add: fuse_images_def Let_def split: option.splits)

text \<open>
  C4, as amended. When the call has passed validation and built its conditioning tensor,
  latents of a shape other than \<open>(batch_size * num_images_per_prompt, in_channels,
  height // f, width // f)\<close> make it raise the shape error. At that point the tokenizer
  and the CLIP text encoder (and the CLIP image encoder when images were retrieved) have
  been invoked, and nothing else: no random draw, no scheduler call (its state is the one
  the call started with), no U-Net call, no decoding.
\<close>

theorem latents_shape_mismatch:
  assumes "conditioning pl a = (evc, Inr (b, te))"
    and "latents a = Some l"
    and "map int (shape l) \<noteq> latents_shape pl b a"
  shows "rdm_call pl a st =
           (Inl (LatentsShapeError (shape l) (latents_shape pl b a)), evc, st)
       \<and> evc = [ETokenize (prompt_list (prompt a)),
                 ETextFeatures (tokenizer_call (tokenizer pl) (prompt_list (prompt a)))] @
                (case retrieved_images a of
                   None \<Rightarrow> []
                 | Some ims \<Rightarrow>
                     [EImageFeatures (preprocess_images (normalize_images ims)
                                        (feature_extractor pl))])
       \<and> filter is_unet evc = [] \<and> filter is_step evc = [] \<and> filter is_decode evc = []"
proof -
  have lat: "prepare_latents pl (latents_shape pl b a) a =
               ([], Inl (LatentsShapeError (shape l) (latents_shape pl b a)))"
    using assms(2,3) by (simp add: prepare_latents_def)
  have den: "rdm_denoise pl a st =
               (Inl (LatentsShapeError (shape l) (latents_shape pl b a)), evc, st)"
    using assms(1) lat by (simp add: rdm_denoise_def)
  have call: "rdm_call pl a st =
           (Inl (LatentsShapeError (shape l) (latents_shape pl b a)), evc, st)"
    using den by (simp add: rdm_call_def rdm_generate_def)
  have evc: "evc = [ETokenize (prompt_list (prompt a)),
                 ETextFeatures (tokenizer_call (tokenizer pl) (prompt_list (prompt a)))] @
                (case retrieved_images a of
                   None \<Rightarrow> []
                 | Some ims \<Rightarrow>
                     [EImageFeatures (preprocess_images (normalize_images ims)
                                        (feature_extractor pl))])"
    using assms(1)
    by (rule conditioning_Inr_parts) (simp add: encode_prompt_trace fuse_images_trace)
  have "filter is_unet evc = []" "filter is_step evc = []" "filter is_decode evc = []"
    unfolding evc by (simp_all split: option.splits)
  with call evc show ?thesis by (intro conjI)
qed

lemma ex_conditioning:
  "conditioning (ex_pipeline [32, 64, 128, 256] ex_scheduler)
     (ex_args\<lparr>latents := Some \<lparr>shape = [1, 1, 2, 2], vals = [0, 0, 0, 0]\<rparr>\<rparr>)
   = ([ETokenize [''cat''], ETextFeatures [[99, 97, 116, 0]]],
      Inr (1, \<lparr>shape = [1, 1, 2], vals = [0, 1]\<rparr>))"
  by (simp add: conditioning_def check_inputs_def encode_prompt_def fuse_images_def
        duplicate_per_prompt_def add_uncond_def do_classifier_free_guidance_def
        tokenizer_call_def ids_width_def tensor_defs ex_defs Let_def numeral_2_eq_2)

theorem latents_shape_mismatch_witness:
  "rdm_call (ex_pipeline [32, 64, 128, 256] ex_scheduler)
     (ex_args\<lparr>latents := Some \<lparr>shape = [1, 1, 2, 2], vals = [0, 0, 0, 0]\<rparr>\<rparr>) []
   = (Inl (LatentsShapeError [1, 1, 2, 2] [1, 1, 1, 1]),
      [ETokenize [''cat''], ETextFeatures [[99, 97, 116, 0]]], [])"
proof -
  let ?pl = "ex_pipeline [32, 64, 128, 256] ex_scheduler"
  let ?a = "ex_args\<lparr>latents := Some \<lparr>shape = [1, 1, 2, 2], vals = [0, 0, 0, 0]\<rparr>\<rparr>"
  have ls: "latents_shape ?pl 1 ?a = [1, 1, 1, 1]"
    by (simp add: latents_shape_def vae_scale_factor_def ex_defs)
  have l: "latents ?a = Some \<lparr>shape = [1, 1, 2, 2], vals = [0, 0, 0, 0]\<rparr>" by simp
  have ne: "map int (shape \<lparr>shape = [1, 1, 2, 2], vals = [0, 0, 0, 0::real]\<rparr>)
              \<noteq> latents_shape ?pl 1 ?a"
    unfolding ls by simp
  from latents_shape_mismatch [OF ex_conditioning l ne, of "[]"]
  show ?thesis unfolding ls by simp
qed

text \<open>
  C4 as stated fails: the error is not raised before any computation. In the call below
  the prompt has been tokenized and the CLIP text encoder has run when the shape of the
  supplied latents, \<open>(1, 1, 2, 2)\<close> instead of \<open>(1, 1, 1, 1)\<close>, is rejected.
\<close>

theorem latents_error_after_embedding_counterexample:
  "fst (rdm_call (ex_pipeline [32, 64, 128, 256] ex_scheduler)
     (ex_args\<lparr>latents := Some \<lparr>shape = [1, 1, 2, 2], vals = [0, 0, 0, 0]\<rparr>\<rparr>) [])
     = Inl (LatentsShapeError [1, 1, 2, 2] [1, 1, 1, 1])
   \<and> fst (snd (rdm_call (ex_pipeline [32, 64, 128, 256] ex_scheduler)
     (ex_args\<lparr>latents := Some \<lparr>shape = [1, 1, 2, 2], vals = [0, 0, 0, 0]\<rparr>\<rparr>) []))
     = [ETokenize [''cat''], ETextFeatures [[99, 97, 116, 0]]]
   \<and> get_text_features (clip (ex_pipeline [32, 64, 128, 256] ex_scheduler)) [[99, 97, 116, 0]]
     = \<lparr>shape = [1, 2], vals = [0, 2]\<rparr>"
proof -
  let ?pl = "ex_pipeline [32, 64, 128, 256] ex_scheduler"
  let ?a = "ex_args\<lparr>latents := Some \<lparr>shape = [1, 1, 2, 2], vals = [0, 0, 0, 0]\<rparr>\<rparr>"
  have ls: "latents_shape ?pl 1 ?a = [1, 1, 1, 1]"
    by (simp add: latents_shape_def vae_scale_factor_def ex_defs)
  have lat: "prepare_latents ?pl [1, 1, 1, 1] ?a
               = ([], Inl (LatentsShapeError [1, 1, 2, 2] [1, 1, 1, 1]))"
    by (simp add: prepare_latents_def)
  have call: "rdm_call ?pl ?a [] =
      (Inl (LatentsShapeError [1, 1, 2, 2] [1, 1, 1, 1]),
       [ETokenize [''cat''], ETextFeatures [[99, 97, 116, 0]]], [])"
    unfolding rdm_call_def rdm_generate_def rdm_denoise_def ex_conditioning
    by (simp add: ls [simplified] lat [simplified])
  have clip: "get_text_features (clip ?pl) [[99, 97, 116, 0]]
                = \<lparr>shape = [1, 2], vals = [0, 2]\<rparr>"
    by (simp add: ex_pipeline_def ex_clip_def)
  show ?thesis unfolding call using clip by simp
qed

section \<open>Classifier-free guidance\<close>



lemma duplicate_per_prompt_shape:
  assumes "duplicate_per_prompt fused n = Inr dup"
  obtains bs seq d where "shape fused = [bs, seq, d]" and "shape dup = [bs * nat n, seq, d]"
  using assms
  by (auto simp add: duplicate_per_prompt_def split: list.splits if_splits)





lemma add_uncond_active:
  "shape te = b # rest \<Longrightarrow>
     add_uncond True te = Inr \<lparr>shape = (b + b) # rest, vals = map (\<lambda>_. 0) (vals te) @ vals te\<rparr>"
  by (simp add: add_uncond_def cat_dim0_def zeros_like_def)






section \<open>Retrieved images\<close>

lemma length_blocks: "length (blocks n k xs) = n"
  by (induction n arbitrary: xs) simp_all

lemma blocks_concat_replicate:
  "length ys = k \<Longrightarrow> blocks n k (concat (replicate n ys)) = replicate n ys"
  by (induction n) simp_all

lemma map2_append_replicate:
  "length xs = n \<Longrightarrow> map2 (@) xs (replicate n ys) = map (\<lambda>x. x @ ys) xs"
  by (induction xs arbitrary: n) auto

lemma blocks_lengths:
  "n * k \<le> length xs \<Longrightarrow> map length (blocks n k xs) = replicate n k"
proof (induction n arbitrary: xs)
  case 0
  then show ?case by simp
next
  case (Suc n)
  then have "k \<le> length xs" and "n * k \<le> length (drop k xs)" by simp_all
  with Suc.IH show ?case by simp
qed

lemma div_by_norm_length: "length (div_by_norm row) = length row"
  by (simp add: div_by_norm_def)

lemma normalized_rows_length:
  assumes "length xs = n * k"
  shows "length (concat (map div_by_norm (blocks n k xs))) = n * k"
proof -
  have "map length (map div_by_norm (blocks n k xs)) = map length (blocks n k xs)"
    by (simp add: div_by_norm_length)
  also have "\<dots> = replicate n k" using assms by (simp add: blocks_lengths)
  finally show ?thesis by (simp add: length_concat sum_list_replicate)
qed

lemma sum_squares_scaled:
  "sum_list (map (\<lambda>x. x * x) (map (\<lambda>x. x / c) row)) =
     sum_list (map (\<lambda>x. x * x) row) / (c * c)" for c :: real
  by (induction row) (simp_all add: add_divide_distrib)

text \<open>A row that is not all zeros has norm one after the division.\<close>

lemma l2norm_div_by_norm:
  assumes "l2norm row \<noteq> 0"
  shows "l2norm (div_by_norm row) = 1"
proof -
  let ?s = "sum_list (map (\<lambda>x. x * x) row)"
  have nonneg: "0 \<le> ?s" by (induction row) simp_all
  have "sqrt ?s * sqrt ?s = ?s" using nonneg by simp
  moreover have "?s \<noteq> 0" using assms by (auto simp add: l2norm_def)
  ultimately have one: "?s / (sqrt ?s * sqrt ?s) = 1" by simp
  have "l2norm (div_by_norm row) =
          sqrt (sum_list (map (\<lambda>x. x * x) (map (\<lambda>x. x / sqrt ?s) row)))"
    by (simp only: l2norm_def div_by_norm_def)
  also have "\<dots> = sqrt (?s / (sqrt ?s * sqrt ?s))"
    by (simp only: sum_squares_scaled)
  also have "\<dots> = 1" by (simp only: one real_sqrt_one)
  finally show ?thesis .
qed

lemma normalize_last_rank2:
  "shape t = [r, d] \<Longrightarrow>
     normalize_last t = Inr (t\<lparr>vals := concat (map div_by_norm (blocks r d (vals t)))\<rparr>)"
  by (simp add: normalize_last_def numel_def)

lemma fuse_images_Some:
  assumes "shape te = [B, 1, D]"
    and "shape (get_image_features (clip pl)
                  (preprocess_images (normalize_images ims) (feature_extractor pl))) = [R, D]"
    and "wf_tensor (get_image_features (clip pl)
                  (preprocess_images (normalize_images ims) (feature_extractor pl)))"
  shows "fuse_images pl B te (Some ims) =
           ([EImageFeatures (preprocess_images (normalize_images ims) (feature_extractor pl))],
            Inr \<lparr>shape = [B, 1 + R, D],
                 vals = concat (map (\<lambda>row. row @ concat (map div_by_norm (blocks R D
                          (vals (get_image_features (clip pl)
                             (preprocess_images (normalize_images ims)
                                (feature_extractor pl)))))))
                          (blocks B D (vals te)))\<rparr>)"
proof -
  let ?px = "preprocess_images (normalize_images ims) (feature_extractor pl)"
  let ?feats = "get_image_features (clip pl) ?px"
  let ?iv = "concat (map div_by_norm (blocks R D (vals ?feats)))"
  have len: "length ?iv = R * D"
    using assms(2,3) by (intro normalized_rows_length) (simp add: wf_tensor_def numel_def)
  have norm: "normalize_last ?feats = Inr (?feats\<lparr>vals := ?iv\<rparr>)"
    using assms(2) by (rule normalize_last_rank2)
  have rep: "repeat_b11 B (unsqueeze0 (?feats\<lparr>vals := ?iv\<rparr>)) =
               Inr \<lparr>shape = [B, R, D], vals = concat (replicate B ?iv)\<rparr>"
    using assms(2) by (simp add: repeat_b11_def unsqueeze0_def)
  have cat: "cat_dim1 te \<lparr>shape = [B, R, D], vals = concat (replicate B ?iv)\<rparr> =
               Inr \<lparr>shape = [B, 1 + R, D],
                    vals = concat (map (\<lambda>row. row @ ?iv) (blocks B D (vals te)))\<rparr>"
    using assms(1) len
    by (simp add: cat_dim1_def numel_def blocks_concat_replicate map2_append_replicate
          length_blocks)
  show ?thesis
    by (simp add: fuse_images_def Let_def norm rep cat)
qed

lemma encode_prompt_shape:
  assumes "shape (get_text_features (clip pl)
                    (tokenizer_call (tokenizer pl) (prompt_list p))) = [B, D]"
    and "snd (encode_prompt pl p) = Inr te"
  shows "shape te = [B, 1, D]"
proof -
  let ?feats = "get_text_features (clip pl) (tokenizer_call (tokenizer pl) (prompt_list p))"
  have "snd (encode_prompt pl p) =
          (case normalize_last ?feats of Inl e \<Rightarrow> Inl e | Inr t \<Rightarrow> unsqueeze1 t)"
    using ids_width_tokenizer_call [of "tokenizer pl" "prompt_list p"]
    by (simp add: encode_prompt_def Let_def)
  with assms(2) show ?thesis
    by (auto simp add: normalize_last_rank2 [OF assms(1)] unsqueeze1_def assms(1))
qed

text \<open>
  C7. Take a call with retrieved images, in which CLIP returns one \<open>D\<close>-vector per prompt
  (\<open>B\<close> of them) and one per image (\<open>R\<close> of them). The images are embedded in one call,
  each embedding is divided by its norm (and has norm one unless it is zero), and the
  same \<open>R\<close> normalised embeddings are appended after the text embedding of every one of
  the \<open>B\<close> prompts. The conditioning tensor of the call then has sequence length
  \<open>1 + R\<close>, and the only CLIP image call of the trace is that one.
\<close>

theorem retrieved_images_broadcast:
  assumes "retrieved_images a = Some ims"
    and "shape (get_text_features (clip pl)
                  (tokenizer_call (tokenizer pl) (prompt_list (prompt a)))) = [B, D]"
    and "shape (get_image_features (clip pl)
                  (preprocess_images (normalize_images ims) (feature_extractor pl))) = [R, D]"
    and "wf_tensor (get_image_features (clip pl)
                  (preprocess_images (normalize_images ims) (feature_extractor pl)))"
  shows "(\<forall>te. shape te = [B, 1, D] \<longrightarrow>
            fuse_images pl B te (retrieved_images a) =
              ([EImageFeatures (preprocess_images (normalize_images ims) (feature_extractor pl))],
               Inr \<lparr>shape = [B, 1 + R, D],
                    vals = concat (map (\<lambda>row. row @ concat (map div_by_norm (blocks R D
                             (vals (get_image_features (clip pl)
                                (preprocess_images (normalize_images ims)
                                   (feature_extractor pl)))))))
                             (blocks B D (vals te)))\<rparr>))
       \<and> (\<forall>row\<in>set (blocks R D (vals (get_image_features (clip pl)
                          (preprocess_images (normalize_images ims) (feature_extractor pl))))).
             l2norm row \<noteq> 0 \<longrightarrow> l2norm (div_by_norm row) = 1)
       \<and> (\<forall>evc c. conditioning pl a = (evc, Inr (B, c)) \<longrightarrow>
             evc = [ETokenize (prompt_list (prompt a)),
                    ETextFeatures (tokenizer_call (tokenizer pl) (prompt_list (prompt a))),
                    EImageFeatures (preprocess_images (normalize_images ims)
                                      (feature_extractor pl))]
           \<and> shape c = [(if do_classifier_free_guidance a then 2 else 1)
                           * (B * nat (num_images_per_prompt a)), 1 + R, D])"
proof -
  let ?px = "preprocess_images (normalize_images ims) (feature_extractor pl)"
  let ?feats = "get_image_features (clip pl) ?px"
  let ?iv = "concat (map div_by_norm (blocks R D (vals ?feats)))"
  have fuse: "\<forall>te. shape te = [B, 1, D] \<longrightarrow>
            fuse_images pl B te (retrieved_images a) =
              ([EImageFeatures ?px],
               Inr \<lparr>shape = [B, 1 + R, D],
                    vals = concat (map (\<lambda>row. row @ ?iv) (blocks B D (vals te)))\<rparr>)"
    unfolding assms(1) using fuse_images_Some [OF _ assms(3,4)] by blast
  have norm: "\<forall>row\<in>set (blocks R D (vals ?feats)).
             l2norm row \<noteq> 0 \<longrightarrow> l2norm (div_by_norm row) = 1"
    by (simp add: l2norm_div_by_norm)
  have cond: "\<forall>evc c. conditioning pl a = (evc, Inr (B, c)) \<longrightarrow>
             evc = [ETokenize (prompt_list (prompt a)),
                    ETextFeatures (tokenizer_call (tokenizer pl) (prompt_list (prompt a))),
                    EImageFeatures ?px]
           \<and> shape c = [(if do_classifier_free_guidance a then 2 else 1)
                           * (B * nat (num_images_per_prompt a)), 1 + R, D]"
  proof (intro allI impI)
    fix evc c
    assume c: "conditioning pl a = (evc, Inr (B, c))"
    obtain text_only fused dup where
      enc: "snd (encode_prompt pl (prompt a)) = Inr text_only"
      and fus: "snd (fuse_images pl B text_only (retrieved_images a)) = Inr fused"
      and dup: "duplicate_per_prompt fused (num_images_per_prompt a) = Inr dup"
      and unc: "add_uncond (do_classifier_free_guidance a) dup = Inr c"
      and evc: "evc = fst (encode_prompt pl (prompt a)) @
                      fst (fuse_images pl B text_only (retrieved_images a))"
      using c by (rule conditioning_Inr_parts)
    have sh_text: "shape text_only = [B, 1, D]"
      using assms(2) enc by (rule encode_prompt_shape)
    have sh_fused: "shape fused = [B, 1 + R, D]"
      using fus fuse [rule_format, OF sh_text] by auto
    obtain bs seq d where "shape fused = [bs, seq, d]"
      and "shape dup = [bs * nat (num_images_per_prompt a), seq, d]"
      using dup by (rule duplicate_per_prompt_shape)
    with sh_fused have sh_dup: "shape dup = [B * nat (num_images_per_prompt a), 1 + R, D]"
      by simp
    have sh_c: "shape c = [(if do_classifier_free_guidance a then 2 else 1)
                           * (B * nat (num_images_per_prompt a)), 1 + R, D]"
    proof (cases "do_classifier_free_guidance a")
      case True
      with unc add_uncond_active [OF sh_dup] show ?thesis by auto
    next
      case False
      with unc sh_dup show ?thesis by (simp add: add_uncond_def)
    qed
    have "evc = [ETokenize (prompt_list (prompt a)),
                 ETextFeatures (tokenizer_call (tokenizer pl) (prompt_list (prompt a))),
                 EImageFeatures ?px]"
      unfolding evc by (simp add: encode_prompt_trace fuse_images_trace assms(1))
    with sh_c show "evc = [ETokenize (prompt_list (prompt a)),
                    ETextFeatures (tokenizer_call (tokenizer pl) (prompt_list (prompt a))),
                    EImageFeatures ?px]
           \<and> shape c = [(if do_classifier_free_guidance a then 2 else 1)
                           * (B * nat (num_images_per_prompt a)), 1 + R, D]"
      by (intro conjI)
  qed
  show ?thesis by (intro conjI fuse norm cond)
qed

lemma ex_conditioning_two_prompts:
  "conditioning (ex_pipeline [32, 64, 128, 256] ex_scheduler)
     (ex_args\<lparr>prompt := PList [''a'', ''b''],
               retrieved_images := Some [\<lparr>shape = [1, 1, 3], vals = [0, 0, 0]\<rparr>]\<rparr>)
   = ([ETokenize [''a'', ''b''], ETextFeatures [[97, 0, 0, 0], [98, 0, 0, 0]],
       EImageFeatures \<lparr>shape = [1, 1], vals = [0]\<rparr>],
      Inr (2, \<lparr>shape = [2, 2, 2], vals = [0, 1, 1, 0, 0, 1, 1, 0]\<rparr>))"
  by (simp add: conditioning_def check_inputs_def encode_prompt_def fuse_images_def
        duplicate_per_prompt_def add_uncond_def do_classifier_free_guidance_def
        tokenizer_call_def ids_width_def normalize_images_def preprocess_images_def
        tensor_defs ex_defs Let_def numeral_2_eq_2 numeral_3_eq_3)

text \<open>One retrieved image and two prompts: both prompts get the same image embedding
  \<open>(1, 0)\<close> after their text embedding \<open>(0, 1)\<close>.\<close>

theorem retrieved_images_broadcast_witness:
  "retrieved_images (ex_args\<lparr>prompt := PList [''a'', ''b''],
               retrieved_images := Some [\<lparr>shape = [1, 1, 3], vals = [0, 0, 0]\<rparr>]\<rparr>)
     = Some [\<lparr>shape = [1, 1, 3], vals = [0, 0, 0]\<rparr>]
   \<and> fuse_images (ex_pipeline [32, 64, 128, 256] ex_scheduler) 2
         \<lparr>shape = [2, 1, 2], vals = [0, 1, 0, 1]\<rparr>
         (retrieved_images (ex_args\<lparr>prompt := PList [''a'', ''b''],
               retrieved_images := Some [\<lparr>shape = [1, 1, 3], vals = [0, 0, 0]\<rparr>]\<rparr>))
     = ([EImageFeatures \<lparr>shape = [1, 1], vals = [0]\<rparr>],
        Inr \<lparr>shape = [2, 2, 2], vals = [0, 1, 1, 0, 0, 1, 1, 0]\<rparr>)
   \<and> conditioning (ex_pipeline [32, 64, 128, 256] ex_scheduler)
         (ex_args\<lparr>prompt := PList [''a'', ''b''],
               retrieved_images := Some [\<lparr>shape = [1, 1, 3], vals = [0, 0, 0]\<rparr>]\<rparr>)
     = ([ETokenize [''a'', ''b''], ETextFeatures [[97, 0, 0, 0], [98, 0, 0, 0]],
         EImageFeatures \<lparr>shape = [1, 1], vals = [0]\<rparr>],
        Inr (2, \<lparr>shape = [2, 2, 2], vals = [0, 1, 1, 0, 0, 1, 1, 0]\<rparr>))"
proof -
  let ?pl = "ex_pipeline [32, 64, 128, 256] ex_scheduler"
  let ?img = "\<lparr>shape = [1, 1, 3], vals = [0, 0, 0]\<rparr>"
  let ?a = "ex_args\<lparr>prompt := PList [''a'', ''b''], retrieved_images := Some [?img]\<rparr>"
  let ?px = "preprocess_images (normalize_images [?img]) (feature_extractor ?pl)"
  have ri: "retrieved_images ?a = Some [?img]" by simp
  have px: "?px = \<lparr>shape = [1, 1], vals = [0]\<rparr>"
    by (simp add: preprocess_images_def normalize_images_def ex_pipeline_def)
  have feats: "get_image_features (clip ?pl) ?px = \<lparr>shape = [1, 2], vals = [2, 0]\<rparr>"
    unfolding px by (simp add: ex_pipeline_def ex_clip_def)
  have tsh: "shape (get_text_features (clip ?pl)
                      (tokenizer_call (tokenizer ?pl) (prompt_list (prompt ?a)))) = [2, 2]"
    by (simp add: ex_pipeline_def ex_clip_def tokenizer_call_def)
  have img: "shape (get_image_features (clip ?pl) ?px) = [1, 2]"
    and wf: "wf_tensor (get_image_features (clip ?pl) ?px)"
    unfolding feats by (simp_all add: wf_tensor_def numel_def)
  note T = retrieved_images_broadcast [OF ri tsh img wf]
  have sh: "shape \<lparr>shape = [2, 1, 2], vals = [0, 1, 0, 1::real]\<rparr> = [2, 1, 2]" by simp
  have fuse: "fuse_images ?pl 2 \<lparr>shape = [2, 1, 2], vals = [0, 1, 0, 1]\<rparr> (retrieved_images ?a)
     = ([EImageFeatures \<lparr>shape = [1, 1], vals = [0]\<rparr>],
        Inr \<lparr>shape = [2, 2, 2], vals = [0, 1, 1, 0, 0, 1, 1, 0]\<rparr>)"
    unfolding T [THEN conjunct1, rule_format, OF sh] px
    by (simp add: numeral_2_eq_2 feats [unfolded px, simplified] div_by_norm_def l2norm_def)
  show ?thesis by (intro conjI ri fuse ex_conditioning_two_prompts)
qed

end
